theory Spec2Isabelle
  imports Complex_Main
begin

section \<open>Values of the Python program\<close>

text \<open>
  The module \<^verbatim>\<open>copulas/bivariate/base.py\<close> computes with \<^verbatim>\<open>float\<close> and
  \<^verbatim>\<open>numpy.float64\<close> values. A finite float is modelled by the real number it denotes
  (rounding is not modelled); the three special values that numpy produces on a division
  by zero are kept, because the program's comparisons and \<^verbatim>\<open>np.argmax\<close> treat them
  specially. The sign of a zero is not modelled: every zero divisor in the module is a
  square, hence \<^verbatim>\<open>+0.0\<close>.
\<close>

datatype pyfloat = Fin real | PInf | NInf | NaN

fun isnan :: "pyfloat \<Rightarrow> bool" where
  "isnan NaN = True"
| "isnan _ = False"

fun isfinite :: "pyfloat \<Rightarrow> bool" where
  "isfinite (Fin _) = True"
| "isfinite _ = False"

text \<open>\<^verbatim>\<open>a <= b\<close>: false as soon as one side is nan.\<close>

fun fle :: "pyfloat \<Rightarrow> pyfloat \<Rightarrow> bool" where
  "fle NaN _ = False"
| "fle _ NaN = False"
| "fle NInf _ = True"
| "fle _ PInf = True"
| "fle (Fin a) (Fin b) = (a \<le> b)"
| "fle PInf _ = False"
| "fle (Fin _) NInf = False"

text \<open>\<^verbatim>\<open>a < b\<close>.\<close>

fun flt :: "pyfloat \<Rightarrow> pyfloat \<Rightarrow> bool" where
  "flt NaN _ = False"
| "flt _ NaN = False"
| "flt (Fin a) (Fin b) = (a < b)"
| "flt NInf NInf = False"
| "flt NInf _ = True"
| "flt PInf _ = False"
| "flt (Fin _) PInf = True"
| "flt (Fin _) NInf = False"

text \<open>\<^verbatim>\<open>a >= b\<close> and \<^verbatim>\<open>a > b\<close>.\<close>

definition fge :: "pyfloat \<Rightarrow> pyfloat \<Rightarrow> bool" where
  "fge a b = fle b a"

definition fgt :: "pyfloat \<Rightarrow> pyfloat \<Rightarrow> bool" where
  "fgt a b = flt b a"

text \<open>\<^verbatim>\<open>a == b\<close>: nan is not equal to anything.\<close>

definition feq :: "pyfloat \<Rightarrow> pyfloat \<Rightarrow> bool" where
  "feq a b = (\<not> isnan a \<and> a = b)"

fun fneg :: "pyfloat \<Rightarrow> pyfloat" where
  "fneg (Fin a) = Fin (- a)"
| "fneg PInf = NInf"
| "fneg NInf = PInf"
| "fneg NaN = NaN"

fun fadd :: "pyfloat \<Rightarrow> pyfloat \<Rightarrow> pyfloat" where
  "fadd NaN _ = NaN"
| "fadd _ NaN = NaN"
| "fadd (Fin a) (Fin b) = Fin (a + b)"
| "fadd PInf NInf = NaN"
| "fadd NInf PInf = NaN"
| "fadd PInf _ = PInf"
| "fadd NInf _ = NInf"
| "fadd (Fin _) PInf = PInf"
| "fadd (Fin _) NInf = NInf"

definition fsub :: "pyfloat \<Rightarrow> pyfloat \<Rightarrow> pyfloat" where
  "fsub a b = fadd a (fneg b)"

text \<open>The product of an infinity and a finite factor \<open>b\<close>.\<close>

definition inf_times :: "bool \<Rightarrow> real \<Rightarrow> pyfloat" where
  "inf_times positive b =
     (if b = 0 then NaN else if (0 < b) = positive then PInf else NInf)"

fun fmul :: "pyfloat \<Rightarrow> pyfloat \<Rightarrow> pyfloat" where
  "fmul NaN _ = NaN"
| "fmul _ NaN = NaN"
| "fmul (Fin a) (Fin b) = Fin (a * b)"
| "fmul PInf (Fin b) = inf_times True b"
| "fmul NInf (Fin b) = inf_times False b"
| "fmul (Fin a) PInf = inf_times True a"
| "fmul (Fin a) NInf = inf_times False a"
| "fmul PInf PInf = PInf"
| "fmul NInf NInf = PInf"
| "fmul PInf NInf = NInf"
| "fmul NInf PInf = NInf"

text \<open>
  numpy's true division: a nonzero finite value over zero is an infinity, zero over zero
  is nan (numpy warns and goes on; it does not raise).
\<close>

fun fdiv :: "pyfloat \<Rightarrow> pyfloat \<Rightarrow> pyfloat" where
  "fdiv NaN _ = NaN"
| "fdiv _ NaN = NaN"
| "fdiv (Fin a) (Fin b) =
     (if b \<noteq> 0 then Fin (a / b) else if a = 0 then NaN else if 0 < a then PInf else NInf)"
| "fdiv (Fin _) _ = Fin 0"
| "fdiv PInf (Fin b) = (if 0 \<le> b then PInf else NInf)"
| "fdiv NInf (Fin b) = (if 0 \<le> b then NInf else PInf)"
| "fdiv _ _ = NaN"

text \<open>\<^verbatim>\<open>x ** 2\<close> and \<^verbatim>\<open>np.power(x, 2)\<close>.\<close>

definition fsquare :: "pyfloat \<Rightarrow> pyfloat" where
  "fsquare x = fmul x x"

subsection \<open>Exceptions\<close>

text \<open>
  The exceptions the module raises or lets through. \<^verbatim>\<open>ValueError\<close> carries the text of
  its message (without the formatted values), since the module raises it at three places
  and \<^verbatim>\<open>select_copula\<close> catches it whatever the message.
\<close>

datatype error =
    ValueError string
  | TypeError
  | IndexError
  | ZeroDivisionError
  | AttributeError
  | NotFittedError
  | NotImplementedError

definition invalid_copula_type :: error where
  "invalid_copula_type = ValueError ''Invalid copula type''"

definition theta_out_of_limits :: error where
  "theta_out_of_limits = ValueError ''The computed theta value is out of limits for the given copula.''"

definition correlation_range :: error where
  "correlation_range = ValueError ''The range for correlation measure is [-1,1].''"

definition unpack_error :: error where
  "unpack_error = ValueError ''wrong number of values to unpack''"

definition broadcast_error :: error where
  "broadcast_error = ValueError ''operands could not be broadcast together''"

fun is_ValueError :: "error \<Rightarrow> bool" where
  "is_ValueError (ValueError _) = True"
| "is_ValueError _ = False"

subsection \<open>The enumeration \<^verbatim>\<open>CopulaTypes\<close>\<close>

datatype CopulaTypes = CLAYTON | FRANK | GUMBEL

text \<open>\<^verbatim>\<open>member.name\<close> and \<^verbatim>\<open>member.value\<close>.\<close>

fun name :: "CopulaTypes \<Rightarrow> string" where
  "name CLAYTON = ''CLAYTON''"
| "name FRANK = ''FRANK''"
| "name GUMBEL = ''GUMBEL''"

fun enum_value :: "CopulaTypes \<Rightarrow> nat" where
  "enum_value CLAYTON = 0"
| "enum_value FRANK = 1"
| "enum_value GUMBEL = 2"

text \<open>\<^verbatim>\<open>CopulaTypes.__members__\<close>, in definition order.\<close>

definition members :: "(string \<times> CopulaTypes) list" where
  "members = [(''CLAYTON'', CLAYTON), (''FRANK'', FRANK), (''GUMBEL'', GUMBEL)]"

text \<open>\<^verbatim>\<open>CopulaTypes(i)\<close>: the member with value \<open>i\<close>, a \<^verbatim>\<open>ValueError\<close> if there is none.\<close>

definition CopulaTypes_of_value :: "nat \<Rightarrow> error + CopulaTypes" where
  "CopulaTypes_of_value i =
     (if i = 0 then Inr CLAYTON else if i = 1 then Inr FRANK else if i = 2 then Inr GUMBEL
      else Inl (ValueError ''is not a valid CopulaTypes''))"

text \<open>
  \<^verbatim>\<open>str.upper()\<close> on the ASCII range: the letters a to z are mapped to A to Z and every
  other character is left as it is. (No character outside ASCII is upper-cased by Python to
  a letter of the three member names.)
\<close>

definition upper_char :: "char \<Rightarrow> char" where
  "upper_char c =
     (let n = (of_char c :: nat) in if 97 \<le> n \<and> n \<le> 122 then char_of (n - 32) else c)"

definition str_upper :: "string \<Rightarrow> string" where
  "str_upper s = map upper_char s"

section \<open>The class \<^verbatim>\<open>Bivariate\<close>\<close>

text \<open>
  The subclasses of \<^verbatim>\<open>Bivariate\<close> (one per family) are not part of \<^verbatim>\<open>base.py\<close>. What
  the base class reads of a subclass is collected in a record: the class attributes
  \<^verbatim>\<open>copula_type\<close>, \<^verbatim>\<open>theta_interval\<close> and \<^verbatim>\<open>invalid_thetas\<close>, and the methods the base
  class calls, \<^verbatim>\<open>get_theta\<close> (which reads \<^verbatim>\<open>self.tau\<close>), \<^verbatim>\<open>cumulative_density\<close> and
  \<^verbatim>\<open>_sample\<close> (which read \<^verbatim>\<open>self.theta\<close>); each may raise.
\<close>

record variant =
  copula_type :: CopulaTypes
  theta_interval :: "pyfloat list"
  invalid_thetas :: "pyfloat list"
  get_theta :: "pyfloat \<Rightarrow> error + pyfloat"
  cumulative_density :: "pyfloat option \<Rightarrow> pyfloat list \<Rightarrow> pyfloat list \<Rightarrow> error + pyfloat list"
  private_sample :: "pyfloat option \<Rightarrow> pyfloat list \<Rightarrow> pyfloat list \<Rightarrow> error + pyfloat list"

text \<open>
  An instance: its class and its attributes. \<^verbatim>\<open>None\<close> is \<open>None\<close>; the attributes
  \<^verbatim>\<open>self.U\<close> and \<^verbatim>\<open>self.V\<close> do not exist before \<^verbatim>\<open>fit\<close>.
\<close>

record bivariate =
  cls :: variant
  theta :: "pyfloat option"
  tau :: "pyfloat option"
  self_U :: "pyfloat list option"
  self_V :: "pyfloat list option"

text \<open>
  What the module takes from outside: \<^verbatim>\<open>scipy.stats.kendalltau\<close> (its first component),
  and the list \<^verbatim>\<open>Bivariate.subclasses()\<close> of the subclasses that carry a family tag, in
  the order Python finds them.
\<close>

record env =
  kendalltau :: "pyfloat list \<Rightarrow> pyfloat list \<Rightarrow> error + pyfloat"
  subclasses :: "variant list"

text \<open>The argument of the constructor: a member of the enumeration, a string, or any other object.\<close>

datatype copula_arg = Tag CopulaTypes | Str string | OtherObject

text \<open>
  \<^verbatim>\<open>Bivariate.__new__\<close>. The loop returns an instance of the first subclass with the
  tag; when no subclass has it, the method falls off its end and returns \<^verbatim>\<open>None\<close>.
\<close>

definition Bivariate_new :: "env \<Rightarrow> copula_arg \<Rightarrow> error + variant option" where
  "Bivariate_new e a =
     (case (case a of
              Tag t \<Rightarrow> Inr t
            | Str s \<Rightarrow> (case map_of members (str_upper s) of
                          Some t \<Rightarrow> Inr t
                        | None \<Rightarrow> Inl invalid_copula_type)
            | OtherObject \<Rightarrow> Inl invalid_copula_type) of
        Inl err \<Rightarrow> Inl err
      | Inr t \<Rightarrow> Inr (find (\<lambda>subclass. copula_type subclass = t) (subclasses e)))"

text \<open>\<^verbatim>\<open>Bivariate.__init__\<close>.\<close>

definition Bivariate_init :: "variant \<Rightarrow> bivariate" where
  "Bivariate_init c = \<lparr>cls = c, theta = None, tau = None, self_U = None, self_V = None\<rparr>"

text \<open>
  The call \<^verbatim>\<open>Bivariate(copula_type)\<close>: \<^verbatim>\<open>__new__\<close>, then \<^verbatim>\<open>__init__\<close> on the
  instance; when \<^verbatim>\<open>__new__\<close> returns \<^verbatim>\<open>None\<close> the call returns \<^verbatim>\<open>None\<close>.
\<close>

definition Bivariate :: "env \<Rightarrow> copula_arg \<Rightarrow> error + bivariate option" where
  "Bivariate e a =
     (case Bivariate_new e a of
        Inl err \<Rightarrow> Inl err
      | Inr None \<Rightarrow> Inr None
      | Inr (Some c) \<Rightarrow> Inr (Some (Bivariate_init c)))"

text \<open>\<^verbatim>\<open>check_fit\<close>: \<^verbatim>\<open>not self.theta\<close> holds for \<^verbatim>\<open>None\<close> and for a zero, not for nan.\<close>

definition falsy :: "pyfloat option \<Rightarrow> bool" where
  "falsy x = (case x of None \<Rightarrow> True | Some (Fin r) \<Rightarrow> r = 0 | Some _ \<Rightarrow> False)"

definition check_fit :: "bivariate \<Rightarrow> error + unit" where
  "check_fit self = (if falsy (theta self) then Inl NotFittedError else Inr ())"

text \<open>\<^verbatim>\<open>x in xs\<close> on floats (by \<^verbatim>\<open>==\<close>).\<close>

definition py_in :: "pyfloat \<Rightarrow> pyfloat list \<Rightarrow> bool" where
  "py_in x xs = list_ex (feq x) xs"

text \<open>
  \<^verbatim>\<open>check_theta\<close>. The unpacking of \<^verbatim>\<open>theta_interval\<close> needs exactly two values, and
  a comparison of a float with \<^verbatim>\<open>None\<close> is a \<^verbatim>\<open>TypeError\<close>.
\<close>

definition check_theta :: "bivariate \<Rightarrow> error + unit" where
  "check_theta self =
     (case theta_interval (cls self) of
        [lower, upper] \<Rightarrow>
          (case theta self of
             None \<Rightarrow> Inl TypeError
           | Some th \<Rightarrow>
               if (\<not> (fle lower th \<and> fle th upper)) \<or> py_in th (invalid_thetas (cls self))
               then Inl theta_out_of_limits
               else Inr ())
      | _ \<Rightarrow> Inl unpack_error)"

text \<open>
  \<^verbatim>\<open>fit\<close>: the four assignments in the order of the source, then \<^verbatim>\<open>check_theta\<close>. The
  result is the outcome together with the instance as the call leaves it.
\<close>

definition fit :: "env \<Rightarrow> bivariate \<Rightarrow> pyfloat list \<Rightarrow> pyfloat list \<Rightarrow> (error + unit) \<times> bivariate" where
  "fit e self u v =
     (let s1 = self\<lparr>self_U := Some u\<rparr>;
          s2 = s1\<lparr>self_V := Some v\<rparr>
      in case kendalltau e u v of
           Inl err \<Rightarrow> (Inl err, s2)
         | Inr t \<Rightarrow>
             let s3 = s2\<lparr>tau := Some t\<rparr>
             in case get_theta (cls s3) t of
                  Inl err \<Rightarrow> (Inl err, s3)
                | Inr th \<Rightarrow>
                    let s4 = s3\<lparr>theta := Some th\<rparr>
                    in (check_theta s4, s4))"

text \<open>The dict of \<^verbatim>\<open>to_dict\<close>, with its three keys.\<close>

record copula_dict =
  dict_copula_type :: string
  dict_theta :: "pyfloat option"
  dict_tau :: "pyfloat option"

definition to_dict :: "bivariate \<Rightarrow> copula_dict" where
  "to_dict self =
     \<lparr>dict_copula_type = name (copula_type (cls self)),
      dict_theta = theta self,
      dict_tau = tau self\<rparr>"

text \<open>
  \<^verbatim>\<open>from_dict\<close>, called on \<^verbatim>\<open>Bivariate\<close>. Setting an attribute of \<^verbatim>\<open>None\<close> is an
  \<^verbatim>\<open>AttributeError\<close>.
\<close>

definition from_dict :: "env \<Rightarrow> copula_dict \<Rightarrow> error + bivariate" where
  "from_dict e d =
     (case Bivariate e (Str (dict_copula_type d)) of
        Inl err \<Rightarrow> Inl err
      | Inr None \<Rightarrow> Inl AttributeError
      | Inr (Some instance) \<Rightarrow>
          Inr (instance\<lparr>theta := dict_theta d, tau := dict_tau d\<rparr>))"

text \<open>\<^verbatim>\<open>np.column_stack((u, v))\<close> of two one-dimensional arrays.\<close>

definition column_stack :: "pyfloat list \<Rightarrow> pyfloat list \<Rightarrow> error + (pyfloat \<times> pyfloat) list" where
  "column_stack u v =
     (if length u = length v then Inr (zip u v)
      else Inl (ValueError ''all the input array dimensions must match''))"

text \<open>
  \<^verbatim>\<open>sample\<close>. The two draws of \<^verbatim>\<open>np.random.uniform(0, 1, n_samples)\<close> are arguments
  \<open>v\<close> and \<open>c\<close>. In Python 3 the comparison \<^verbatim>\<open>None > 1\<close> is a \<^verbatim>\<open>TypeError\<close>.
\<close>

definition sample :: "bivariate \<Rightarrow> pyfloat list \<Rightarrow> pyfloat list \<Rightarrow> error + (pyfloat \<times> pyfloat) list" where
  "sample self v c =
     (case tau self of
        None \<Rightarrow> Inl TypeError
      | Some t \<Rightarrow>
          if fgt t (Fin 1) \<or> flt t (Fin (- 1)) then Inl correlation_range
          else (case private_sample (cls self) (theta self) v c of
                  Inl err \<Rightarrow> Inl err
                | Inr u \<Rightarrow> column_stack u v))"

section \<open>numpy on one-dimensional arrays\<close>

text \<open>
  An elementwise operation of numpy on two one-dimensional operands: equal lengths go
  pointwise, an operand of length one is broadcast, anything else is a \<^verbatim>\<open>ValueError\<close>.
\<close>

definition np_broadcast2 :: "('a \<Rightarrow> 'b \<Rightarrow> 'c) \<Rightarrow> 'a list \<Rightarrow> 'b list \<Rightarrow> error + 'c list" where
  "np_broadcast2 f xs ys =
     (if length xs = length ys then Inr (map2 f xs ys)
      else if length xs = 1 then Inr (map (f (hd xs)) ys)
      else if length ys = 1 then Inr (map (\<lambda>x. f x (hd ys)) xs)
      else Inl broadcast_error)"

text \<open>\<^verbatim>\<open>np.sum\<close> of floats.\<close>

definition np_sum :: "pyfloat list \<Rightarrow> pyfloat" where
  "np_sum xs = foldl fadd (Fin 0) xs"

text \<open>
  \<^verbatim>\<open>np.argmax\<close>: the index of the first entry that is not \<^verbatim>\<open><=\<close> the running maximum;
  the scan stops at the first nan, which therefore wins. The arguments of \<open>argmax_scan\<close>
  are the running maximum, its index, the index of the next entry and the entries left.
\<close>

fun argmax_scan :: "pyfloat \<Rightarrow> nat \<Rightarrow> nat \<Rightarrow> pyfloat list \<Rightarrow> nat" where
  "argmax_scan mp best i [] = best"
| "argmax_scan mp best i (x # xs) =
     (if isnan mp then best
      else if \<not> fle x mp then argmax_scan x i (Suc i) xs
      else argmax_scan mp best (Suc i) xs)"

definition argmax :: "pyfloat list \<Rightarrow> error + nat" where
  "argmax xs =
     (case xs of
        [] \<Rightarrow> Inl (ValueError ''attempt to get argmax of an empty sequence'')
      | x # rest \<Rightarrow> Inr (argmax_scan x 0 1 rest))"

text \<open>\<^verbatim>\<open>np.linspace(0.0, 1.0, num)\<close> for \<open>num\<close> at least two.\<close>

definition linspace :: "nat \<Rightarrow> pyfloat list" where
  "linspace num = map (\<lambda>k. Fin (real k / real (num - 1))) [0..<num]"

text \<open>\<^verbatim>\<open>xs[k]\<close> for an index that is not negative.\<close>

definition py_index :: "'a list \<Rightarrow> nat \<Rightarrow> error + 'a" where
  "py_index xs k = (if k < length xs then Inr (xs ! k) else Inl IndexError)"

text \<open>A \<^verbatim>\<open>for\<close> loop whose body may raise: the first exception ends it.\<close>

fun for_loop :: "('a \<Rightarrow> 's \<Rightarrow> error + 's) \<Rightarrow> 'a list \<Rightarrow> 's \<Rightarrow> error + 's" where
  "for_loop body [] s = Inr s"
| "for_loop body (x # xs) s =
     (case body x s of Inl err \<Rightarrow> Inl err | Inr s' \<Rightarrow> for_loop body xs s')"

text \<open>A list comprehension whose element expression may raise.\<close>

fun map_res :: "('a \<Rightarrow> error + 'b) \<Rightarrow> 'a list \<Rightarrow> error + 'b list" where
  "map_res f [] = Inr []"
| "map_res f (x # xs) =
     (case f x of
        Inl err \<Rightarrow> Inl err
      | Inr y \<Rightarrow> (case map_res f xs of Inl err \<Rightarrow> Inl err | Inr ys \<Rightarrow> Inr (y # ys)))"

subsection \<open>List objects\<close>

text \<open>
  Python lists are objects: \<^verbatim>\<open>a = b = []\<close> binds both names to one list, and an
  \<^verbatim>\<open>append\<close> through either name is seen through the other. The store holds the list
  objects of one call; a name is bound to the address of its object.
\<close>

type_synonym 'a store = "'a list list"

definition new_list :: "'a store \<Rightarrow> nat \<times> 'a store" where
  "new_list h = (length h, h @ [[]])"

definition list_append :: "nat \<Rightarrow> 'a \<Rightarrow> 'a store \<Rightarrow> 'a store" where
  "list_append r x h = h[r := h ! r @ [x]]"

definition deref :: "nat \<Rightarrow> 'a store \<Rightarrow> 'a list" where
  "deref r h = h ! r"

section \<open>The empirical tail curves\<close>

definition COMPUTE_EMPIRICAL_STEPS :: nat where
  "COMPUTE_EMPIRICAL_STEPS = 50"

text \<open>
  \<^verbatim>\<open>sum(np.logical_and(u <= b, v <= b))\<close> (and the same with \<^verbatim>\<open>>=\<close>): the number of
  positions where both comparisons hold.
\<close>

definition tail_count :: "(pyfloat \<Rightarrow> pyfloat \<Rightarrow> bool) \<Rightarrow> pyfloat list \<Rightarrow> pyfloat list \<Rightarrow> pyfloat \<Rightarrow> error + nat" where
  "tail_count cmp u v b =
     (case np_broadcast2 (\<lambda>x y. x \<and> y) (map (\<lambda>x. cmp x b) u) (map (\<lambda>y. cmp y b) v) of
        Inl err \<Rightarrow> Inl err
      | Inr bs \<Rightarrow> Inr (length (filter id bs)))"

text \<open>
  The count over \<^verbatim>\<open>N\<close>. With \<^verbatim>\<open>N = 0\<close> the array is empty, the sum is the Python
  integer 0, and \<^verbatim>\<open>0 / 0\<close> raises.
\<close>

definition count_over :: "nat \<Rightarrow> nat \<Rightarrow> error + pyfloat" where
  "count_over c N = (if N = 0 then Inl ZeroDivisionError else Inr (Fin (real c / real N)))"

text \<open>
  The body of the loop of \<^verbatim>\<open>compute_empirical\<close> for the grid index \<open>k\<close>. The four names
  \<open>z_left\<close>, \<open>z_right\<close>, \<open>L\<close> and \<open>R\<close> are addresses in the store.
\<close>

definition empirical_step ::
  "pyfloat list \<Rightarrow> pyfloat list \<Rightarrow> nat \<Rightarrow> pyfloat list \<Rightarrow> nat \<Rightarrow> nat \<Rightarrow> nat \<Rightarrow> nat \<Rightarrow> nat
     \<Rightarrow> pyfloat store \<Rightarrow> error + pyfloat store" where
  "empirical_step u v N base z_left z_right L R k h =
     (case tail_count fle u v (base ! k) of
        Inl err \<Rightarrow> Inl err
      | Inr cl \<Rightarrow>
     (case count_over cl N of
        Inl err \<Rightarrow> Inl err
      | Inr left \<Rightarrow>
     (case tail_count fge u v (base ! k) of
        Inl err \<Rightarrow> Inl err
      | Inr cr \<Rightarrow>
     (case count_over cr N of
        Inl err \<Rightarrow> Inl err
      | Inr right \<Rightarrow>
          (let h1 = (if fgt left (Fin 0)
                     then list_append L (fdiv left (fsquare (base ! k)))
                            (list_append z_left (base ! k) h)
                     else h)
           in if fgt right (Fin 0)
              then (let h2 = list_append z_right (base ! k) h1
                    in case py_index (deref z_right h2) k of
                         Inl err \<Rightarrow> Inl err
                       | Inr zk \<Rightarrow>
                           Inr (list_append R (fdiv right (fsquare (fsub (Fin 1) zk))) h2))
              else Inr h1)))))"

text \<open>
  The body of \<^verbatim>\<open>compute_empirical\<close> with the loop cut after its first \<open>n\<close> passes.
  The two chained assignments create one list object each, so \<open>z_left\<close> and \<open>z_right\<close>
  are one address, and \<open>L\<close> and \<open>R\<close> another.
\<close>

definition empirical_loop ::
  "nat \<Rightarrow> pyfloat list \<Rightarrow> pyfloat list
     \<Rightarrow> error + (pyfloat list \<times> pyfloat list \<times> pyfloat list \<times> pyfloat list)" where
  "empirical_loop n u v =
     (let (a, h0) = new_list [];
          z_left = a; z_right = a;
          (b, h1) = new_list h0;
          L = b; R = b;
          N = length u;
          base = linspace COMPUTE_EMPIRICAL_STEPS
      in case for_loop (empirical_step u v N base z_left z_right L R) [0..<n] h1 of
           Inl err \<Rightarrow> Inl err
         | Inr h \<Rightarrow> Inr (deref z_left h, deref L h, deref z_right h, deref R h))"

text \<open>\<^verbatim>\<open>compute_empirical\<close>: the loop runs over \<^verbatim>\<open>range(COMPUTE_EMPIRICAL_STEPS)\<close>.\<close>

definition compute_empirical ::
  "pyfloat list \<Rightarrow> pyfloat list
     \<Rightarrow> error + (pyfloat list \<times> pyfloat list \<times> pyfloat list \<times> pyfloat list)" where
  "compute_empirical u v = empirical_loop COMPUTE_EMPIRICAL_STEPS u v"

section \<open>Model selection\<close>

text \<open>
  \<^verbatim>\<open>compute_tail(c, z)\<close>: \<^verbatim>\<open>(1.0 - 2 * z + c) / (1.0 - z) ** 2\<close>, elementwise.
\<close>

definition compute_tail :: "pyfloat list \<Rightarrow> pyfloat list \<Rightarrow> error + pyfloat list" where
  "compute_tail c z =
     (case np_broadcast2 fadd (map (\<lambda>x. fsub (Fin 1) (fmul (Fin 2) x)) z) c of
        Inl err \<Rightarrow> Inl err
      | Inr numerator \<Rightarrow>
          np_broadcast2 fdiv numerator (map (\<lambda>x. fsquare (fsub (Fin 1) x)) z))"

text \<open>The bodies of the two loops of \<^verbatim>\<open>get_dependences\<close>.\<close>

definition left_step ::
  "pyfloat list \<Rightarrow> nat \<Rightarrow> bivariate \<Rightarrow> pyfloat list store \<Rightarrow> error + pyfloat list store" where
  "left_step z_left left copula h =
     (case cumulative_density (cls copula) (theta copula) z_left z_left of
        Inl err \<Rightarrow> Inl err
      | Inr c \<Rightarrow>
          (case np_broadcast2 fdiv c (map fsquare z_left) of
             Inl err \<Rightarrow> Inl err
           | Inr curve \<Rightarrow> Inr (list_append left curve h)))"

definition right_step ::
  "pyfloat list \<Rightarrow> nat \<Rightarrow> bivariate \<Rightarrow> pyfloat list store \<Rightarrow> error + pyfloat list store" where
  "right_step z_right right copula h =
     (case cumulative_density (cls copula) (theta copula) z_right z_right of
        Inl err \<Rightarrow> Inl err
      | Inr c \<Rightarrow>
          (case compute_tail c z_right of
             Inl err \<Rightarrow> Inl err
           | Inr curve \<Rightarrow> Inr (list_append right curve h)))"

text \<open>
  \<^verbatim>\<open>get_dependences\<close>. The chained assignment \<^verbatim>\<open>left = right = []\<close> creates one list
  object, to which both loops append.
\<close>

definition get_dependences ::
  "bivariate list \<Rightarrow> pyfloat list \<Rightarrow> pyfloat list
     \<Rightarrow> error + (pyfloat list list \<times> pyfloat list list)" where
  "get_dependences copulas z_left z_right =
     (let (a, h0) = new_list [];
          left = a; right = a
      in case for_loop (left_step z_left left) copulas h0 of
           Inl err \<Rightarrow> Inl err
         | Inr h1 \<Rightarrow>
             (case for_loop (right_step z_right right) copulas h1 of
                Inl err \<Rightarrow> Inl err
              | Inr h2 \<Rightarrow> Inr (deref left h2, deref right h2)))"

text \<open>
  The two statements \<^verbatim>\<open>x = Bivariate(tag)\<close> and \<^verbatim>\<open>x.fit(U, V)\<close>; calling a method of
  \<^verbatim>\<open>None\<close> is an \<^verbatim>\<open>AttributeError\<close>. The result is the fitted instance.
\<close>

definition fit_new :: "env \<Rightarrow> CopulaTypes \<Rightarrow> pyfloat list \<Rightarrow> pyfloat list \<Rightarrow> error + bivariate" where
  "fit_new e t u v =
     (case Bivariate e (Tag t) of
        Inl err \<Rightarrow> Inl err
      | Inr None \<Rightarrow> Inl AttributeError
      | Inr (Some instance) \<Rightarrow>
          (case fit e instance u v of
             (Inl err, _) \<Rightarrow> Inl err
           | (Inr _, fitted) \<Rightarrow> Inr fitted))"

text \<open>
  One \<^verbatim>\<open>try\<close> block of \<^verbatim>\<open>select_copula\<close>: the candidate is appended when its fit
  returns; a \<^verbatim>\<open>ValueError\<close> is passed over, any other exception goes on.
\<close>

definition try_candidate ::
  "env \<Rightarrow> CopulaTypes \<Rightarrow> pyfloat list \<Rightarrow> pyfloat list
     \<Rightarrow> bivariate list \<times> pyfloat option list \<Rightarrow> error + (bivariate list \<times> pyfloat option list)" where
  "try_candidate e t u v cs =
     (case fit_new e t u v of
        Inl err \<Rightarrow> if is_ValueError err then Inr cs else Inl err
      | Inr fitted \<Rightarrow> Inr (fst cs @ [fitted], snd cs @ [theta fitted]))"

text \<open>
  \<^verbatim>\<open>[np.sum((L - l) ** 2) for l in left_dependence]\<close>: the curve \<open>l\<close> is an array, so
  the subtraction is numpy's.
\<close>

definition squared_deviations :: "pyfloat list \<Rightarrow> pyfloat list list \<Rightarrow> error + pyfloat list" where
  "squared_deviations empirical curves =
     map_res (\<lambda>curve. case np_broadcast2 fsub empirical curve of
                         Inl err \<Rightarrow> Inl err
                       | Inr d \<Rightarrow> Inr (np_sum (map fsquare d))) curves"

text \<open>The lines of \<^verbatim>\<open>select_copula\<close> from the empirical curves to the \<^verbatim>\<open>return\<close>.\<close>

definition select_by_cost ::
  "bivariate list \<Rightarrow> pyfloat option list \<Rightarrow> pyfloat list \<Rightarrow> pyfloat list
     \<Rightarrow> error + (CopulaTypes \<times> pyfloat option)" where
  "select_by_cost copula_candidates theta_candidates u v =
     (case compute_empirical u v of
        Inl err \<Rightarrow> Inl err
      | Inr (z_left, L, z_right, R) \<Rightarrow>
     (case get_dependences copula_candidates z_left z_right of
        Inl err \<Rightarrow> Inl err
      | Inr (left_dependence, right_dependence) \<Rightarrow>
     (case squared_deviations L left_dependence of
        Inl err \<Rightarrow> Inl err
      | Inr cost_L \<Rightarrow>
     (case squared_deviations R right_dependence of
        Inl err \<Rightarrow> Inl err
      | Inr cost_R \<Rightarrow>
     (case np_broadcast2 fadd cost_L cost_R of
        Inl err \<Rightarrow> Inl err
      | Inr cost_LR \<Rightarrow>
     (case argmax cost_LR of
        Inl err \<Rightarrow> Inl err
      | Inr selected_copula \<Rightarrow>
     (case py_index theta_candidates selected_copula of
        Inl err \<Rightarrow> Inl err
      | Inr selected_theta \<Rightarrow>
     (case CopulaTypes_of_value selected_copula of
        Inl err \<Rightarrow> Inl err
      | Inr selected \<Rightarrow> Inr (selected, selected_theta)))))))))"

text \<open>
  The lists \<^verbatim>\<open>copula_candidates\<close> and \<^verbatim>\<open>theta_candidates\<close> of \<^verbatim>\<open>select_copula\<close> after
  its two \<^verbatim>\<open>try\<close> blocks: they start with the fitted Clayton model.
\<close>

definition copula_candidates ::
  "env \<Rightarrow> bivariate \<Rightarrow> pyfloat list \<Rightarrow> pyfloat list
     \<Rightarrow> error + (bivariate list \<times> pyfloat option list)" where
  "copula_candidates e clayton u v =
     (case try_candidate e FRANK u v ([clayton], [theta clayton]) of
        Inl err \<Rightarrow> Inl err
      | Inr cs1 \<Rightarrow> try_candidate e GUMBEL u v cs1)"

text \<open>The branch of \<^verbatim>\<open>select_copula\<close> after the test on Clayton's tau.\<close>

definition select_general ::
  "env \<Rightarrow> bivariate \<Rightarrow> pyfloat list \<Rightarrow> pyfloat list \<Rightarrow> error + (CopulaTypes \<times> pyfloat option)" where
  "select_general e clayton u v =
     (case copula_candidates e clayton u v of
        Inl err \<Rightarrow> Inl err
      | Inr (candidates, theta_candidates) \<Rightarrow>
          select_by_cost candidates theta_candidates u v)"

text \<open>\<^verbatim>\<open>select_copula\<close>.\<close>

definition select_copula ::
  "env \<Rightarrow> pyfloat list \<Rightarrow> pyfloat list \<Rightarrow> error + (CopulaTypes \<times> pyfloat option)" where
  "select_copula e u v =
     (case fit_new e CLAYTON u v of
        Inl err \<Rightarrow> Inl err
      | Inr clayton \<Rightarrow>
          (case tau clayton of
             None \<Rightarrow> Inl TypeError
           | Some t \<Rightarrow>
               if fle t (Fin 0)
               then (case fit_new e FRANK u v of
                       Inl err \<Rightarrow> Inl err
                     | Inr frank \<Rightarrow> Inr (FRANK, theta frank))
               else select_general e clayton u v))"

section \<open>The selection and the estimator as the specification words them\<close>

text \<open>
  Section 4.3 of the specification: for each grid point \<open>z\<close> with a positive left count,
  \<open>z\<close> goes to \<open>z_left\<close> and the count over \<open>z\<^sup>2\<close> to \<open>L\<close>; for each grid point with a
  positive right count, \<open>z\<close> goes to \<open>z_right\<close> and the count over \<open>(1 - z)\<^sup>2\<close> to \<open>R\<close>.
  The four sequences are separate.
\<close>

definition spec_count :: "(pyfloat \<Rightarrow> pyfloat \<Rightarrow> bool) \<Rightarrow> pyfloat list \<Rightarrow> pyfloat list \<Rightarrow> pyfloat \<Rightarrow> real" where
  "spec_count cmp u v z =
     real (length (filter (\<lambda>(x, y). cmp x z \<and> cmp y z) (zip u v))) / real (length u)"

definition spec_compute_empirical ::
  "pyfloat list \<Rightarrow> pyfloat list \<Rightarrow> pyfloat list \<times> pyfloat list \<times> pyfloat list \<times> pyfloat list" where
  "spec_compute_empirical u v =
     (let grid = linspace COMPUTE_EMPIRICAL_STEPS;
          z_left = filter (\<lambda>z. 0 < spec_count fle u v z) grid;
          z_right = filter (\<lambda>z. 0 < spec_count fge u v z) grid
      in (z_left,
          map (\<lambda>z. fdiv (Fin (spec_count fle u v z)) (fsquare z)) z_left,
          z_right,
          map (\<lambda>z. fdiv (Fin (spec_count fge u v z)) (fsquare (fsub (Fin 1) z))) z_right))"

text \<open>
  Section 4.4, steps 4 and 5: the score of one candidate is the sum of the squared
  deviations of its left curve from \<open>L\<close> plus that of its right curve from \<open>R\<close>.
\<close>

definition spec_score ::
  "pyfloat list \<times> pyfloat list \<times> pyfloat list \<times> pyfloat list \<Rightarrow> bivariate \<Rightarrow> error + pyfloat" where
  "spec_score emp copula =
     (case emp of (z_left, L, z_right, R) \<Rightarrow>
     (case cumulative_density (cls copula) (theta copula) z_left z_left of
        Inl err \<Rightarrow> Inl err
      | Inr cl \<Rightarrow>
     (case cumulative_density (cls copula) (theta copula) z_right z_right of
        Inl err \<Rightarrow> Inl err
      | Inr cr \<Rightarrow>
     (case compute_tail cr z_right of
        Inl err \<Rightarrow> Inl err
      | Inr right_curve \<Rightarrow>
          Inr (fadd (np_sum (map fsquare (map2 fsub L (map2 fdiv cl (map fsquare z_left)))))
                    (np_sum (map fsquare (map2 fsub R right_curve))))))))"

text \<open>
  Step 6: the candidate with the maximal score, as its family tag and its theta.
\<close>

definition spec_select ::
  "bivariate list \<Rightarrow> pyfloat list \<Rightarrow> pyfloat list \<Rightarrow> error + (CopulaTypes \<times> pyfloat option)" where
  "spec_select candidates u v =
     (case map_res (spec_score (spec_compute_empirical u v)) candidates of
        Inl err \<Rightarrow> Inl err
      | Inr scores \<Rightarrow>
          (case argmax scores of
             Inl err \<Rightarrow> Inl err
           | Inr i \<Rightarrow> Inr (copula_type (cls (candidates ! i)), theta (candidates ! i))))"

section \<open>Instances for the examples\<close>

text \<open>
  Kendall's tau-b as \<^verbatim>\<open>scipy.stats.kendalltau\<close> documents it: inputs of different size
  are a \<^verbatim>\<open>ValueError\<close>; the statistic is nan for empty input and when one variable is
  constant (which includes a single observation); otherwise it is the number of concordant
  minus discordant pairs over the geometric mean of the numbers of pairs not tied in \<open>x\<close>
  and not tied in \<open>y\<close>.
\<close>

fun all_pairs :: "'a list \<Rightarrow> ('a \<times> 'a) list" where
  "all_pairs [] = []"
| "all_pairs (x # xs) = map (Pair x) xs @ all_pairs xs"

definition concordant :: "(pyfloat \<times> pyfloat) \<times> (pyfloat \<times> pyfloat) \<Rightarrow> bool" where
  "concordant p =
     (case p of ((x1, y1), (x2, y2)) \<Rightarrow> (flt x1 x2 \<and> flt y1 y2) \<or> (flt x2 x1 \<and> flt y2 y1))"

definition discordant :: "(pyfloat \<times> pyfloat) \<times> (pyfloat \<times> pyfloat) \<Rightarrow> bool" where
  "discordant p =
     (case p of ((x1, y1), (x2, y2)) \<Rightarrow> (flt x1 x2 \<and> flt y2 y1) \<or> (flt x2 x1 \<and> flt y1 y2))"

definition scipy_kendalltau :: "pyfloat list \<Rightarrow> pyfloat list \<Rightarrow> error + pyfloat" where
  "scipy_kendalltau x y =
     (if length x \<noteq> length y
      then Inl (ValueError ''All inputs to kendalltau must be of the same size'')
      else if x = [] \<or> list_ex isnan x \<or> list_ex isnan y then Inr NaN
      else (let ps = all_pairs (zip x y);
                con = length (filter concordant ps);
                dis = length (filter discordant ps);
                xtie = length (filter (\<lambda>p. feq (fst (fst p)) (fst (snd p))) ps);
                ytie = length (filter (\<lambda>p. feq (snd (fst p)) (snd (snd p))) ps);
                tot = length ps
            in if xtie = tot \<or> ytie = tot then Inr NaN
               else Inr (Fin (min 1 (max (- 1)
                      ((real con - real dis)
                         / (sqrt (real (tot - xtie)) * sqrt (real (tot - ytie)))))))))"

text \<open>
  Three subclasses, one per tag. The closed forms of the families are not part of
  \<^verbatim>\<open>base.py\<close>; the stand-ins below are rational, so that the examples can be
  evaluated. The parameter follows tau by \<open>2\<tau> / (1 - \<tau>)\<close>, \<open>9\<tau>\<close> and \<open>1 / (1 - \<tau>)\<close>, the
  cumulative densities are the independence copula \<open>u v\<close>, the lower bound
  \<open>max (u + v - 1) 0\<close> and the upper bound \<open>min u v\<close>, and the conditional sampler
  returns its second draw.
\<close>

definition fmax :: "pyfloat \<Rightarrow> pyfloat \<Rightarrow> pyfloat" where
  "fmax a b = (if fle a b then b else a)"

definition fmin :: "pyfloat \<Rightarrow> pyfloat \<Rightarrow> pyfloat" where
  "fmin a b = (if fle a b then a else b)"

definition example_clayton :: variant where
  "example_clayton =
     \<lparr>copula_type = CLAYTON,
      theta_interval = [Fin (- 1), PInf],
      invalid_thetas = [Fin 0],
      get_theta = (\<lambda>t. Inr (if feq t (Fin 1) then PInf
                             else fdiv (fmul (Fin 2) t) (fsub (Fin 1) t))),
      cumulative_density = (\<lambda>th. np_broadcast2 fmul),
      private_sample = (\<lambda>th v c. Inr c)\<rparr>"

definition example_frank :: variant where
  "example_frank =
     \<lparr>copula_type = FRANK,
      theta_interval = [NInf, PInf],
      invalid_thetas = [Fin 0],
      get_theta = (\<lambda>t. Inr (fmul (Fin 9) t)),
      cumulative_density =
        (\<lambda>th. np_broadcast2 (\<lambda>x y. fmax (fsub (fadd x y) (Fin 1)) (Fin 0))),
      private_sample = (\<lambda>th v c. Inr c)\<rparr>"

definition example_gumbel :: variant where
  "example_gumbel =
     \<lparr>copula_type = GUMBEL,
      theta_interval = [Fin 1, PInf],
      invalid_thetas = [],
      get_theta = (\<lambda>t. Inr (if feq t (Fin 1) then PInf
                             else fdiv (Fin 1) (fsub (Fin 1) t))),
      cumulative_density = (\<lambda>th. np_broadcast2 fmin),
      private_sample = (\<lambda>th v c. Inr c)\<rparr>"

definition example_env :: env where
  "example_env =
     \<lparr>kendalltau = scipy_kendalltau,
      subclasses = [example_clayton, example_frank, example_gumbel]\<rparr>"

text \<open>Three observations with one discordant pair out of three: tau is one third.\<close>

definition example_U :: "pyfloat list" where
  "example_U = [Fin (1 / 5), Fin (2 / 5), Fin (4 / 5)]"

definition example_V :: "pyfloat list" where
  "example_V = [Fin (2 / 5), Fin (1 / 5), Fin (4 / 5)]"

section \<open>Auxiliary notions for the estimator\<close>

text \<open>The grid point \<^verbatim>\<open>base[k]\<close> of the fifty-point grid.\<close>

definition grid_point :: "nat \<Rightarrow> pyfloat" where
  "grid_point k = Fin (real k / 49)"

text \<open>
  The share of the observation pairs whose two coordinates both compare (by \<open>cmp\<close>) with
  the grid point \<open>k\<close>: the left count for \<^verbatim>\<open><=\<close>, the right count for \<^verbatim>\<open>>=\<close>.
\<close>

definition tail_fraction :: "(pyfloat \<Rightarrow> pyfloat \<Rightarrow> bool) \<Rightarrow> pyfloat list \<Rightarrow> pyfloat list \<Rightarrow> nat \<Rightarrow> real" where
  "tail_fraction cmp u v k =
     real (length (filter (\<lambda>(x, y). cmp x (grid_point k) \<and> cmp y (grid_point k)) (zip u v)))
       / real (length u)"

text \<open>
  No observation pair lies in the lower left corner (both coordinates \<^verbatim>\<open><= 0\<close>) or in
  the upper right corner (both \<^verbatim>\<open>>= 1\<close>).
\<close>

definition interior :: "pyfloat list \<Rightarrow> pyfloat list \<Rightarrow> bool" where
  "interior u v =
     list_all (\<lambda>(x, y). \<not> (fle x (Fin 0) \<and> fle y (Fin 0)) \<and> \<not> (fge x (Fin 1) \<and> fge y (Fin 1)))
       (zip u v)"

text \<open>
  What holds of the two list objects after \<open>n\<close> passes of the loop: they have one
  length; as long as every right count was positive there is an entry per pass; the
  entries of the first are grid points met so far; those of the second are not negative,
  and finite when the data are interior.
\<close>

definition emp_inv :: "pyfloat list \<Rightarrow> pyfloat list \<Rightarrow> nat \<Rightarrow> pyfloat list \<Rightarrow> pyfloat list \<Rightarrow> bool" where
  "emp_inv u v n zs es =
     (length zs = length es
      \<and> ((\<forall>j<n. 0 < tail_fraction fge u v j) \<longrightarrow> n \<le> length zs)
      \<and> (\<forall>z \<in> set zs. \<exists>j<n. z = grid_point j)
      \<and> (\<forall>x \<in> set es. fle (Fin 0) x)
      \<and> (interior u v \<longrightarrow> (\<forall>x \<in> set es. isfinite x)))"

text \<open>
  The two theoretical curves of a candidate at the grid \<open>z\<close>, as \<^verbatim>\<open>get_dependences\<close>
  computes them when the cumulative density returns, and the cost of a curve against an
  empirical list, as \<^verbatim>\<open>select_copula\<close> computes it when the lengths agree.
\<close>

definition left_curve :: "pyfloat list \<Rightarrow> bivariate \<Rightarrow> pyfloat list" where
  "left_curve z c =
     map2 fdiv (projr (cumulative_density (cls c) (theta c) z z)) (map fsquare z)"

definition right_curve :: "pyfloat list \<Rightarrow> bivariate \<Rightarrow> pyfloat list" where
  "right_curve z c =
     map2 fdiv
       (map2 fadd (map (\<lambda>x. fsub (Fin 1) (fmul (Fin 2) x)) z)
          (projr (cumulative_density (cls c) (theta c) z z)))
       (map (\<lambda>x. fsquare (fsub (Fin 1) x)) z)"

definition curve_cost :: "pyfloat list \<Rightarrow> pyfloat list \<Rightarrow> pyfloat" where
  "curve_cost empirical curve = np_sum (map fsquare (map2 fsub empirical curve))"

text \<open>A model of the class \<open>c\<close> as a fit on the three example observations leaves it.\<close>

definition example_fitted :: "variant \<Rightarrow> real \<Rightarrow> bivariate" where
  "example_fitted c th =
     \<lparr>cls = c, theta = Some (Fin th), tau = Some (Fin (1 / 3)),
      self_U = Some example_U, self_V = Some example_V\<rparr>"

text \<open>
  Two observations on the diagonal, and the two list objects of \<^verbatim>\<open>compute_empirical\<close>
  on them after fourteen passes of the loop.
\<close>

definition example_quartiles :: "pyfloat list" where
  "example_quartiles = [Fin (1 / 4), Fin (3 / 4)]"

definition quartiles_z14 :: "pyfloat list" where
  "quartiles_z14 =
     [Fin 0, Fin (1 / 49), Fin (2 / 49), Fin (3 / 49), Fin (4 / 49), Fin (5 / 49), Fin (6 / 49),
      Fin (1 / 7), Fin (8 / 49), Fin (9 / 49), Fin (10 / 49), Fin (11 / 49), Fin (12 / 49),
      Fin (13 / 49), Fin (13 / 49)]"

definition quartiles_e14 :: "pyfloat list" where
  "quartiles_e14 =
     [Fin 1, Fin (2401 / 2304), Fin (2401 / 2209), Fin (2401 / 2116), Fin (2401 / 2025),
      Fin (2401 / 1936), Fin (2401 / 1849), Fin (49 / 36), Fin (2401 / 1681), Fin (2401 / 1600),
      Fin (2401 / 1521), Fin (2401 / 1444), Fin (2401 / 1369), Fin (2401 / 338),
      Fin (2401 / 2592)]"

section \<open>Fitted state\<close>

text \<open>
  C10. \<^verbatim>\<open>check_fit\<close> raises \<^verbatim>\<open>NotFittedError\<close> exactly when \<^verbatim>\<open>theta\<close> is \<^verbatim>\<open>None\<close> or is
  the float zero, and returns otherwise: a fitted parameter of 0.0 is treated as the
  unfitted state.
\<close>

theorem check_fit_raises_iff_none_or_zero:
  "check_fit self =
     (if theta self = None \<or> theta self = Some (Fin 0) then Inl NotFittedError else Inr ())"
  by (auto simp: check_fit_def falsy_def split: option.splits pyfloat.splits)

theorem check_fit_raises_iff_none_or_zero_witness:
  "check_fit ((Bivariate_init example_clayton)\<lparr>theta := Some (Fin 0)\<rparr>) = Inl NotFittedError
   \<and> check_fit (Bivariate_init example_clayton) = Inl NotFittedError
   \<and> check_fit ((Bivariate_init example_clayton)\<lparr>theta := Some NaN\<rparr>) = Inr ()"
  using check_fit_raises_iff_none_or_zero [of "(Bivariate_init example_clayton)\<lparr>theta := Some (Fin 0)\<rparr>"]
    check_fit_raises_iff_none_or_zero [of "Bivariate_init example_clayton"]
    check_fit_raises_iff_none_or_zero [of "(Bivariate_init example_clayton)\<lparr>theta := Some NaN\<rparr>"]
  by (simp add: Bivariate_init_def)

section \<open>Family names and the registry\<close>

lemma str_upper_name: "str_upper (name t) = name t"
  by (cases t) (simp_all add: str_upper_def upper_char_def)

lemma members_name: "map_of members (name t) = Some t"
  by (cases t) (simp_all add: members_def)

lemma members_Some: "map_of members s = Some t \<Longrightarrow> s = name t"
  by (auto simp: members_def split: if_splits)

lemma find_tag:
  "c \<in> set cs \<Longrightarrow>
   \<exists>c'. find (\<lambda>x. copula_type x = copula_type c) cs = Some c' \<and> c' \<in> set cs
        \<and> copula_type c' = copula_type c"
  by (induction cs) auto

text \<open>
  C6. For a model whose class is one of the registered subclasses, \<^verbatim>\<open>from_dict\<close> of
  \<^verbatim>\<open>to_dict\<close> returns a model of the same family whose \<^verbatim>\<open>theta\<close> and \<^verbatim>\<open>tau\<close> are the
  very values of the original (the two functions hand the values over without computing
  with them).
\<close>

theorem from_dict_to_dict_roundtrip:
  assumes "cls self \<in> set (subclasses e)"
  shows "\<exists>m. from_dict e (to_dict self) = Inr m
             \<and> copula_type (cls m) = copula_type (cls self)
             \<and> theta m = theta self \<and> tau m = tau self"
  using find_tag [OF assms]
  by (auto simp: from_dict_def to_dict_def Bivariate_def Bivariate_new_def Bivariate_init_def
      str_upper_name members_name)

theorem from_dict_to_dict_roundtrip_witness:
  "example_gumbel \<in> set (subclasses example_env) \<and>
   (\<exists>m. from_dict example_env
          (to_dict \<lparr>cls = example_gumbel, theta = Some (Fin (3 / 2)), tau = Some (Fin (1 / 3)),
                    self_U = None, self_V = None\<rparr>) = Inr m
        \<and> copula_type (cls m) = GUMBEL \<and> theta m = Some (Fin (3 / 2)) \<and> tau m = Some (Fin (1 / 3)))"
  using from_dict_to_dict_roundtrip [of "\<lparr>cls = example_gumbel, theta = Some (Fin (3 / 2)), tau = Some (Fin (1 / 3)),
                    self_U = None, self_V = None\<rparr>" example_env]
  by (simp add: example_env_def example_gumbel_def)

lemma example_registry_complete: "\<exists>c \<in> set (subclasses example_env). copula_type c = t"
  by (cases t) (simp_all add: example_env_def example_clayton_def example_frank_def example_gumbel_def)

lemma find_registered:
  "\<exists>c \<in> set cs. copula_type c = t \<Longrightarrow>
   \<exists>c. find (\<lambda>x. copula_type x = t) cs = Some c \<and> c \<in> set cs \<and> copula_type c = t"
  using find_tag by fastforce

text \<open>
  C8. When a subclass is registered for the family \<open>t\<close>, the constructor called with the
  tag \<open>t\<close>, or with a string whose upper-cased form is the name of \<open>t\<close>, returns a fresh
  instance of a registered subclass of that family. A string whose upper-cased form is
  none of the three names, and an argument that is neither a tag nor a string, make it
  raise the \<^verbatim>\<open>ValueError\<close> for an invalid copula type.
\<close>

theorem construction_resolves_or_invalid_family:
  assumes "\<exists>c \<in> set (subclasses e). copula_type c = t"
  shows "(\<exists>c. Bivariate e (Tag t) = Inr (Some (Bivariate_init c))
              \<and> c \<in> set (subclasses e) \<and> copula_type c = t)
       \<and> (\<forall>s. str_upper s = name t \<longrightarrow>
              (\<exists>c. Bivariate e (Str s) = Inr (Some (Bivariate_init c))
                   \<and> c \<in> set (subclasses e) \<and> copula_type c = t))
       \<and> (\<forall>s. str_upper s \<notin> {''CLAYTON'', ''FRANK'', ''GUMBEL''} \<longrightarrow>
              Bivariate e (Str s) = Inl invalid_copula_type)
       \<and> Bivariate e OtherObject = Inl invalid_copula_type"
proof -
  from find_registered [OF assms] obtain c where
    c: "find (\<lambda>x. copula_type x = t) (subclasses e) = Some c"
       "c \<in> set (subclasses e)" "copula_type c = t"
    by blast
  have tag: "Bivariate e (Tag t) = Inr (Some (Bivariate_init c))"
    by (simp add: Bivariate_def Bivariate_new_def c)
  have str: "Bivariate e (Str s) = Inr (Some (Bivariate_init c))" if "str_upper s = name t" for s
    by (simp add: Bivariate_def Bivariate_new_def that members_name c)
  have bad: "Bivariate e (Str s) = Inl invalid_copula_type"
    if "str_upper s \<notin> {''CLAYTON'', ''FRANK'', ''GUMBEL''}" for s
  proof -
    have "map_of members (str_upper s) = None"
      using that by (auto simp: members_def)
    then show ?thesis by (simp add: Bivariate_def Bivariate_new_def)
  qed
  have other: "Bivariate e OtherObject = Inl invalid_copula_type"
    by (simp add: Bivariate_def Bivariate_new_def)
  from tag str bad other c show ?thesis by blast
qed

theorem construction_resolves_or_invalid_family_witness:
  "(\<exists>c. Bivariate example_env (Tag FRANK) = Inr (Some (Bivariate_init c)) \<and> copula_type c = FRANK)
   \<and> (\<exists>c. Bivariate example_env (Str ''Frank'') = Inr (Some (Bivariate_init c)) \<and> copula_type c = FRANK)
   \<and> Bivariate example_env (Str ''gaussian'') = Inl invalid_copula_type
   \<and> Bivariate example_env OtherObject = Inl invalid_copula_type"
proof -
  note t = construction_resolves_or_invalid_family [OF example_registry_complete, of FRANK]
  have u: "str_upper ''Frank'' = name FRANK"
    by code_simp
  have g: "str_upper ''gaussian'' \<notin> {''CLAYTON'', ''FRANK'', ''GUMBEL''}"
    by code_simp
  from t u g show ?thesis by blast
qed

section \<open>Sampling before a fit\<close>

text \<open>
  C5. On a freshly constructed instance \<^verbatim>\<open>sample\<close> does not raise \<^verbatim>\<open>NotFittedError\<close>:
  it never calls \<^verbatim>\<open>check_fit\<close> (which would raise it), and its first statement compares
  \<^verbatim>\<open>self.tau\<close>, which is \<^verbatim>\<open>None\<close>, with a number, which is a \<^verbatim>\<open>TypeError\<close>.
\<close>

theorem sample_before_fit_raises_TypeError:
  "sample (Bivariate_init c) v d = Inl TypeError
   \<and> check_fit (Bivariate_init c) = Inl NotFittedError"
  by (simp add: sample_def Bivariate_init_def check_fit_def falsy_def)

theorem sample_before_fit_raises_TypeError_witness:
  "sample (Bivariate_init example_frank) [Fin (1 / 2)] [Fin (1 / 4)] = Inl TypeError
   \<and> Inl TypeError \<noteq> (Inl NotFittedError :: error + (pyfloat \<times> pyfloat) list)"
  using sample_before_fit_raises_TypeError [of example_frank "[Fin (1 / 2)]" "[Fin (1 / 4)]"]
  by simp

section \<open>Fitting\<close>

lemma kendalltau_opposite:
  "scipy_kendalltau [Fin (1 / 10), Fin (9 / 10)] [Fin (9 / 10), Fin (1 / 10)] = Inr (Fin (- 1))"
  by (simp add: scipy_kendalltau_def concordant_def discordant_def feq_def)

lemma kendalltau_single:
  "scipy_kendalltau [Fin (1 / 2)] [Fin (1 / 2)] = Inr NaN"
  by (simp add: scipy_kendalltau_def)

lemma kendalltau_mismatch:
  "scipy_kendalltau [Fin (1 / 2)] [Fin (1 / 2), Fin (3 / 4)]
     = Inl (ValueError ''All inputs to kendalltau must be of the same size'')"
  by (simp add: scipy_kendalltau_def)

text \<open>
  C2, as stated, fails: a fit that raises the validation error does change the stored
  state. On two observations in opposite order tau is \<open>-1\<close>, the Gumbel stand-in gets
  \<open>theta = 1/2\<close>, outside its interval; \<^verbatim>\<open>check_theta\<close> raises, and the instance, whose
  \<^verbatim>\<open>theta\<close> and \<^verbatim>\<open>tau\<close> were \<^verbatim>\<open>None\<close>, now holds both values.
\<close>

theorem fit_failed_validation_changes_state:
  "fst (fit example_env (Bivariate_init example_gumbel)
          [Fin (1 / 10), Fin (9 / 10)] [Fin (9 / 10), Fin (1 / 10)]) = Inl theta_out_of_limits
   \<and> theta (Bivariate_init example_gumbel) = None
   \<and> tau (Bivariate_init example_gumbel) = None
   \<and> theta (snd (fit example_env (Bivariate_init example_gumbel)
          [Fin (1 / 10), Fin (9 / 10)] [Fin (9 / 10), Fin (1 / 10)])) = Some (Fin (1 / 2))
   \<and> tau (snd (fit example_env (Bivariate_init example_gumbel)
          [Fin (1 / 10), Fin (9 / 10)] [Fin (9 / 10), Fin (1 / 10)])) = Some (Fin (- 1))"
  by (simp add: fit_def example_env_def kendalltau_opposite example_gumbel_def Bivariate_init_def
      check_theta_def feq_def fsub_def)

text \<open>
  C2, amended. When Kendall's tau and \<^verbatim>\<open>get_theta\<close> return values, \<^verbatim>\<open>fit\<close> stores the
  data, the new tau and the new theta, and only then validates: its outcome is that of
  \<^verbatim>\<open>check_theta\<close> on the updated instance, and the instance it leaves is the updated one
  whether the validation raises or not. In particular both \<^verbatim>\<open>theta\<close> and \<^verbatim>\<open>tau\<close> are
  set after a fit that failed validation.
\<close>

theorem fit_stores_before_validation:
  assumes "kendalltau e u v = Inr t" and "get_theta (cls self) t = Inr th"
  shows "fit e self u v =
           (check_theta (self\<lparr>self_U := Some u, self_V := Some v, tau := Some t, theta := Some th\<rparr>),
            self\<lparr>self_U := Some u, self_V := Some v, tau := Some t, theta := Some th\<rparr>)"
  using assms by (simp add: fit_def Let_def)

theorem fit_stores_before_validation_witness:
  "kendalltau example_env [Fin (1 / 10), Fin (9 / 10)] [Fin (9 / 10), Fin (1 / 10)] = Inr (Fin (- 1))
   \<and> get_theta (cls (Bivariate_init example_gumbel)) (Fin (- 1)) = Inr (Fin (1 / 2))
   \<and> fit example_env (Bivariate_init example_gumbel)
        [Fin (1 / 10), Fin (9 / 10)] [Fin (9 / 10), Fin (1 / 10)]
      = (Inl theta_out_of_limits,
         \<lparr>cls = example_gumbel, theta = Some (Fin (1 / 2)), tau = Some (Fin (- 1)),
          self_U = Some [Fin (1 / 10), Fin (9 / 10)], self_V = Some [Fin (9 / 10), Fin (1 / 10)]\<rparr>)"
proof -
  have k: "kendalltau example_env [Fin (1 / 10), Fin (9 / 10)] [Fin (9 / 10), Fin (1 / 10)] = Inr (Fin (- 1))"
    by (simp add: example_env_def kendalltau_opposite)
  have g: "get_theta (cls (Bivariate_init example_gumbel)) (Fin (- 1)) = Inr (Fin (1 / 2))"
    by (simp add: Bivariate_init_def example_gumbel_def feq_def fsub_def)
  from fit_stores_before_validation [OF k g] k g show ?thesis
    by (simp add: Bivariate_init_def check_theta_def example_gumbel_def)
qed

text \<open>
  C9, as stated, fails: \<^verbatim>\<open>fit\<close> has no check of the lengths and no error of its own for
  short input. On one observation per variable Kendall's tau is nan; \<^verbatim>\<open>fit\<close> stores it,
  computes and stores a theta from it, and the exception that ends the call is the
  validation error of \<^verbatim>\<open>check_theta\<close>.
\<close>

theorem fit_short_input_stores_tau:
  "fst (fit example_env (Bivariate_init example_clayton) [Fin (1 / 2)] [Fin (1 / 2)])
     = Inl theta_out_of_limits
   \<and> tau (snd (fit example_env (Bivariate_init example_clayton) [Fin (1 / 2)] [Fin (1 / 2)]))
     = Some NaN
   \<and> theta (snd (fit example_env (Bivariate_init example_clayton) [Fin (1 / 2)] [Fin (1 / 2)]))
     = Some NaN"
  by (simp add: fit_def example_env_def kendalltau_single example_clayton_def Bivariate_init_def
      check_theta_def feq_def fsub_def)

text \<open>
  C9, amended. \<^verbatim>\<open>fit\<close> leaves the lengths to Kendall's tau: it stores the two sequences
  and calls it. When that call raises, \<^verbatim>\<open>fit\<close> raises the same exception and neither
  tau nor theta has changed; when it returns a value, that value is stored as tau.
\<close>

theorem fit_leaves_lengths_to_kendalltau:
  "(\<forall>err. kendalltau e u v = Inl err \<longrightarrow>
      fit e self u v = (Inl err, self\<lparr>self_U := Some u, self_V := Some v\<rparr>))
   \<and> (\<forall>t. kendalltau e u v = Inr t \<longrightarrow> tau (snd (fit e self u v)) = Some t)"
  by (auto simp: fit_def Let_def split: sum.splits)

theorem fit_leaves_lengths_to_kendalltau_witness:
  "fit example_env (Bivariate_init example_clayton) [Fin (1 / 2)] [Fin (1 / 2), Fin (3 / 4)]
     = (Inl (ValueError ''All inputs to kendalltau must be of the same size''),
        \<lparr>cls = example_clayton, theta = None, tau = None,
         self_U = Some [Fin (1 / 2)], self_V = Some [Fin (1 / 2), Fin (3 / 4)]\<rparr>)
   \<and> tau (snd (fit example_env (Bivariate_init example_clayton) [Fin (1 / 2)] [Fin (1 / 2)]))
     = Some NaN"
proof -
  have a: "kendalltau example_env [Fin (1 / 2)] [Fin (1 / 2), Fin (3 / 4)]
             = Inl (ValueError ''All inputs to kendalltau must be of the same size'')"
    by (simp add: example_env_def kendalltau_mismatch)
  have b: "kendalltau example_env [Fin (1 / 2)] [Fin (1 / 2)] = Inr NaN"
    by (simp add: example_env_def kendalltau_single)
  from fit_leaves_lengths_to_kendalltau [of example_env "[Fin (1 / 2)]" "[Fin (1 / 2), Fin (3 / 4)]"
      "Bivariate_init example_clayton"] a
    fit_leaves_lengths_to_kendalltau [of example_env "[Fin (1 / 2)]" "[Fin (1 / 2)]"
      "Bivariate_init example_clayton"] b
  show ?thesis by (simp add: Bivariate_init_def)
qed

section \<open>Selection: the branch for a tau that is not positive\<close>

lemma fit_new_fitted:
  assumes "fit_new e t u v = Inr m"
  shows "copula_type (cls m) = t \<and> self_U m = Some u \<and> self_V m = Some v \<and> tau m \<noteq> None"
proof -
  from assms obtain c where c: "find (\<lambda>x. copula_type x = t) (subclasses e) = Some c"
    and f: "fit e (Bivariate_init c) u v = (Inr (), m)"
    by (auto simp: fit_new_def Bivariate_def Bivariate_new_def split: option.splits sum.splits prod.splits)
  from c have "copula_type c = t"
    by (auto simp: find_Some_iff)
  with f show ?thesis
    by (auto simp: fit_def Let_def Bivariate_init_def split: sum.splits)
qed

text \<open>
  C3. When the Clayton model has been fitted and its tau is \<^verbatim>\<open><= 0\<close>, \<^verbatim>\<open>select_copula\<close>
  is decided by the fit of a Frank model on the same data alone: if that fit returns, the
  result is the tag \<^verbatim>\<open>FRANK\<close> with that model's theta; if it raises, \<^verbatim>\<open>select_copula\<close>
  raises the same exception. Neither the empirical curves nor any cumulative density
  enters the result.
\<close>

theorem select_copula_nonpositive_tau_returns_frank:
  assumes "fit_new e CLAYTON u v = Inr clayton"
    and "tau clayton = Some t"
    and "fle t (Fin 0)"
  shows "(\<forall>frank. fit_new e FRANK u v = Inr frank \<longrightarrow>
            select_copula e u v = Inr (FRANK, theta frank)
            \<and> copula_type (cls frank) = FRANK
            \<and> self_U frank = Some u \<and> self_V frank = Some v)
       \<and> (\<forall>err. fit_new e FRANK u v = Inl err \<longrightarrow> select_copula e u v = Inl err)"
  using assms fit_new_fitted [of e FRANK u v]
  by (auto simp: select_copula_def)

lemma fit_new_clayton_opposite:
  "fit_new example_env CLAYTON [Fin (1 / 10), Fin (9 / 10)] [Fin (9 / 10), Fin (1 / 10)]
     = Inr \<lparr>cls = example_clayton, theta = Some (Fin (- 1)), tau = Some (Fin (- 1)),
            self_U = Some [Fin (1 / 10), Fin (9 / 10)], self_V = Some [Fin (9 / 10), Fin (1 / 10)]\<rparr>"
  by (simp add: fit_new_def Bivariate_def Bivariate_new_def Bivariate_init_def example_env_def
      fit_def kendalltau_opposite check_theta_def example_clayton_def feq_def fsub_def py_in_def)

lemma fit_new_frank_opposite:
  "fit_new example_env FRANK [Fin (1 / 10), Fin (9 / 10)] [Fin (9 / 10), Fin (1 / 10)]
     = Inr \<lparr>cls = example_frank, theta = Some (Fin (- 9)), tau = Some (Fin (- 1)),
            self_U = Some [Fin (1 / 10), Fin (9 / 10)], self_V = Some [Fin (9 / 10), Fin (1 / 10)]\<rparr>"
  by (simp add: fit_new_def Bivariate_def Bivariate_new_def Bivariate_init_def example_env_def
      fit_def kendalltau_opposite check_theta_def example_clayton_def example_frank_def
      feq_def fsub_def py_in_def)

theorem select_copula_nonpositive_tau_returns_frank_witness:
  "select_copula example_env [Fin (1 / 10), Fin (9 / 10)] [Fin (9 / 10), Fin (1 / 10)]
     = Inr (FRANK, Some (Fin (- 9)))"
proof -
  have le: "fle (Fin (- 1)) (Fin 0)" by simp
  from select_copula_nonpositive_tau_returns_frank [OF fit_new_clayton_opposite _ le]
    fit_new_frank_opposite
  show ?thesis by simp
qed

section \<open>The empirical tail curves: what the loop maintains\<close>

lemma linspace_nth: "k < COMPUTE_EMPIRICAL_STEPS \<Longrightarrow> linspace COMPUTE_EMPIRICAL_STEPS ! k = grid_point k"
  by (simp add: linspace_def COMPUTE_EMPIRICAL_STEPS_def grid_point_def)

lemma count_map2:
  "length xs = length ys \<Longrightarrow>
   length (filter id (map2 (\<and>) (map f xs) (map g ys)))
     = length (filter (\<lambda>(x, y). f x \<and> g y) (zip xs ys))"
  by (induction xs ys rule: list_induct2) auto

lemma tail_count_eq:
  assumes "length u = length v"
  shows "tail_count cmp u v b
           = Inr (length (filter (\<lambda>(x, y). cmp x b \<and> cmp y b) (zip u v)))"
  using assms count_map2 [of u v "\<lambda>x. cmp x b" "\<lambda>y. cmp y b"]
  by (simp add: tail_count_def np_broadcast2_def)

lemma list_append_cells:
  "list_append 0 x [zs, es] = [zs @ [x], es]"
  "list_append (Suc 0) x [zs, es] = [zs, es @ [x]]"
  "deref 0 [zs, es] = zs"
  "deref (Suc 0) [zs, es] = es"
  by (simp_all add: list_append_def deref_def)

lemma empirical_step_cells:
  assumes "length u = length v" and "u \<noteq> []" and "k < COMPUTE_EMPIRICAL_STEPS"
  shows "empirical_step u v (length u) (linspace COMPUTE_EMPIRICAL_STEPS) 0 0 (Suc 0) (Suc 0) k [zs, es] =
     (let zs1 = (if 0 < tail_fraction fle u v k then zs @ [grid_point k] else zs);
          es1 = (if 0 < tail_fraction fle u v k
                 then es @ [fdiv (Fin (tail_fraction fle u v k)) (fsquare (grid_point k))]
                 else es)
      in if 0 < tail_fraction fge u v k
         then (if k < Suc (length zs1)
               then Inr [zs1 @ [grid_point k],
                         es1 @ [fdiv (Fin (tail_fraction fge u v k))
                                  (fsquare (fsub (Fin 1) ((zs1 @ [grid_point k]) ! k)))]]
               else Inl IndexError)
         else Inr [zs1, es1])"
proof -
  have tc: "tail_count cmp u v (grid_point k)
              = Inr (length (filter (\<lambda>(x, y). cmp x (grid_point k) \<and> cmp y (grid_point k)) (zip u v)))" for cmp
    using assms(1) by (rule tail_count_eq)
  have co: "count_over c (length u) = Inr (Fin (real c / real (length u)))" for c
    using assms(2) by (simp add: count_over_def)
  show ?thesis
    by (simp add: empirical_step_def linspace_nth [OF assms(3)] tc co tail_fraction_def
        list_append_cells py_index_def fgt_def Let_def)
qed


lemma fle_grid_mono: "j \<le> k \<Longrightarrow> fle (grid_point k) x \<Longrightarrow> fle (grid_point j) x"
  by (cases x) (auto simp: grid_point_def divide_right_mono elim: order_trans [rotated])

lemma tail_fraction_pos_iff:
  "u \<noteq> [] \<Longrightarrow>
   (0 < tail_fraction cmp u v k)
     = (\<exists>p \<in> set (zip u v). cmp (fst p) (grid_point k) \<and> cmp (snd p) (grid_point k))"
  by (force simp: tail_fraction_def filter_empty_conv zero_less_divide_iff)

lemma right_fraction_antitone:
  assumes "u \<noteq> []" and "0 < tail_fraction fge u v k" and "j \<le> k"
  shows "0 < tail_fraction fge u v j"
  using assms fle_grid_mono [of j k]
  by (auto simp: tail_fraction_pos_iff fge_def)

lemma interior_left_zero:
  assumes "u \<noteq> []" and "interior u v"
  shows "\<not> 0 < tail_fraction fle u v 0"
  using assms
  by (auto simp: tail_fraction_pos_iff interior_def list_all_iff grid_point_def)

lemma interior_right_last:
  assumes "u \<noteq> []" and "interior u v"
  shows "\<not> 0 < tail_fraction fge u v 49"
  using assms
  by (auto simp: tail_fraction_pos_iff interior_def list_all_iff grid_point_def)

lemma left_entry:
  assumes "0 < l"
  shows "fle (Fin 0) (fdiv (Fin l) (fsquare (grid_point k)))"
    and "k \<noteq> 0 \<Longrightarrow> isfinite (fdiv (Fin l) (fsquare (grid_point k)))"
  using assms by (auto simp: fsquare_def grid_point_def)

lemma right_entry:
  assumes "0 < r"
  shows "fle (Fin 0) (fdiv (Fin r) (fsquare (fsub (Fin 1) (grid_point j))))"
    and "j \<noteq> 49 \<Longrightarrow> isfinite (fdiv (Fin r) (fsquare (fsub (Fin 1) (grid_point j))))"
  using assms by (auto simp: fsquare_def fsub_def grid_point_def)


lemma emp_inv_step:
  assumes eq: "length u = length v" and ne: "u \<noteq> []" and k: "k < COMPUTE_EMPIRICAL_STEPS"
    and inv: "emp_inv u v k zs es"
  shows "\<exists>zs' es'. empirical_step u v (length u) (linspace COMPUTE_EMPIRICAL_STEPS) 0 0 (Suc 0) (Suc 0) k [zs, es]
                       = Inr [zs', es'] \<and> emp_inv u v (Suc k) zs' es'"
proof -
  define l where "l = tail_fraction fle u v k"
  define r where "r = tail_fraction fge u v k"
  define zs1 where "zs1 = (if 0 < l then zs @ [grid_point k] else zs)"
  define es1 where "es1 = (if 0 < l then es @ [fdiv (Fin l) (fsquare (grid_point k))] else es)"
  have step: "empirical_step u v (length u) (linspace COMPUTE_EMPIRICAL_STEPS) 0 0 (Suc 0) (Suc 0) k [zs, es] =
     (if 0 < r
      then (if k < Suc (length zs1)
            then Inr [zs1 @ [grid_point k],
                      es1 @ [fdiv (Fin r) (fsquare (fsub (Fin 1) ((zs1 @ [grid_point k]) ! k)))]]
            else Inl IndexError)
      else Inr [zs1, es1])"
    unfolding l_def r_def zs1_def es1_def empirical_step_cells [OF eq ne k] Let_def ..
  from inv have len: "length zs = length es"
    and reach: "(\<forall>j<k. 0 < tail_fraction fge u v j) \<longrightarrow> k \<le> length zs"
    and grid: "\<forall>z \<in> set zs. \<exists>j<k. z = grid_point j"
    and nonneg: "\<forall>x \<in> set es. fle (Fin 0) x"
    and fin: "interior u v \<longrightarrow> (\<forall>x \<in> set es. isfinite x)"
    by (auto simp: emp_inv_def)
  have l0: "k \<noteq> 0" if "0 < l" "interior u v"
  proof
    assume "k = 0"
    with that interior_left_zero [OF ne that(2)] show False
      by (simp add: l_def)
  qed
  have len1: "length zs1 = length es1"
    by (simp add: zs1_def es1_def len)
  have len1_ge: "length zs \<le> length zs1"
    by (simp add: zs1_def)
  have grid1: "\<forall>z \<in> set zs1. \<exists>j<Suc k. z = grid_point j"
    using grid by (auto simp: zs1_def less_Suc_eq)
  have nonneg1: "\<forall>x \<in> set es1. fle (Fin 0) x"
    using nonneg left_entry(1) [of l k] by (auto simp: es1_def)
  have fin1: "interior u v \<longrightarrow> (\<forall>x \<in> set es1. isfinite x)"
    using fin l0 left_entry(2) [of l k] by (auto simp: es1_def)
  show ?thesis
  proof (cases "0 < r")
    case False
    then have "\<not> (\<forall>j<Suc k. 0 < tail_fraction fge u v j)"
      by (auto simp: r_def)
    with False step len1 grid1 nonneg1 fin1 show ?thesis
      by (auto simp: emp_inv_def)
  next
    case True
    then have "\<forall>j<k. 0 < tail_fraction fge u v j"
      using right_fraction_antitone [OF ne, of v k] by (simp add: r_def)
    with reach len1_ge have idx: "k < Suc (length zs1)"
      by simp
    define zk where "zk = (zs1 @ [grid_point k]) ! k"
    from idx have "zk \<in> set (zs1 @ [grid_point k])"
      unfolding zk_def by (intro nth_mem) simp
    with grid1 obtain j where j: "j < Suc k" "zk = grid_point j"
      by auto
    have k49: "k \<noteq> 49" if "interior u v"
    proof
      assume "k = 49"
      with True interior_right_last [OF ne that] show False
        by (simp add: r_def)
    qed
    have jfin: "j \<noteq> 49" if "interior u v"
      using k49 [OF that] j(1) k by (simp add: COMPUTE_EMPIRICAL_STEPS_def)
    define e where "e = fdiv (Fin r) (fsquare (fsub (Fin 1) zk))"
    have e_nonneg: "fle (Fin 0) e"
      using right_entry(1) [OF True, of j] by (simp add: e_def j(2))
    have e_fin: "interior u v \<longrightarrow> isfinite e"
      using right_entry(2) [OF True, of j] jfin by (simp add: e_def j(2))
    have res: "empirical_step u v (length u) (linspace COMPUTE_EMPIRICAL_STEPS) 0 0 (Suc 0) (Suc 0) k [zs, es]
                 = Inr [zs1 @ [grid_point k], es1 @ [e]]"
      using step True idx by (simp add: e_def zk_def)
    have "emp_inv u v (Suc k) (zs1 @ [grid_point k]) (es1 @ [e])"
      using len1 idx grid1 nonneg1 fin1 e_nonneg e_fin
      by (auto simp: emp_inv_def)
    with res show ?thesis by blast
  qed
qed

lemma for_loop_snoc:
  "for_loop body (xs @ [x]) s
     = (case for_loop body xs s of Inl err \<Rightarrow> Inl err | Inr s' \<Rightarrow> body x s')"
  by (induction xs arbitrary: s) (auto split: sum.splits)

lemma emp_inv_loop:
  assumes eq: "length u = length v" and ne: "u \<noteq> []"
  shows "n \<le> COMPUTE_EMPIRICAL_STEPS \<Longrightarrow>
         \<exists>zs es. for_loop (empirical_step u v (length u) (linspace COMPUTE_EMPIRICAL_STEPS) 0 0 (Suc 0) (Suc 0))
                    [0..<n] [[], []] = Inr [zs, es] \<and> emp_inv u v n zs es"
proof (induction n)
  case 0
  show ?case by (simp add: emp_inv_def)
next
  case (Suc n)
  then obtain zs es where
    run: "for_loop (empirical_step u v (length u) (linspace COMPUTE_EMPIRICAL_STEPS) 0 0 (Suc 0) (Suc 0))
            [0..<n] [[], []] = Inr [zs, es]"
    and inv: "emp_inv u v n zs es"
    by auto
  from Suc.prems have "n < COMPUTE_EMPIRICAL_STEPS" by simp
  from emp_inv_step [OF eq ne this inv] run show ?case
    by (simp add: for_loop_snoc)
qed

lemma empirical_loop_cells:
  "empirical_loop n u v =
     (case for_loop (empirical_step u v (length u) (linspace COMPUTE_EMPIRICAL_STEPS) 0 0 (Suc 0) (Suc 0))
             [0..<n] [[], []] of
        Inl err \<Rightarrow> Inl err
      | Inr h \<Rightarrow> Inr (deref 0 h, deref (Suc 0) h, deref 0 h, deref (Suc 0) h))"
  by (simp add: empirical_loop_def new_list_def split: sum.splits)

text \<open>
  C7, amended. On two sequences of one length that is not zero, \<^verbatim>\<open>compute_empirical\<close>
  returns; \<open>z_left\<close> and \<open>L\<close> have one length, \<open>z_right\<close> and \<open>R\<close> have one length;
  every entry of \<open>L\<close> and \<open>R\<close> is a number that is not negative or is plus infinity
  (never nan); and every entry is finite when no observation pair has both coordinates
  \<^verbatim>\<open><= 0\<close> or both \<^verbatim>\<open>>= 1\<close>.
\<close>

theorem compute_empirical_lengths_and_signs:
  assumes "length u = length v" and "u \<noteq> []"
  shows "\<exists>z_left L z_right R.
           compute_empirical u v = Inr (z_left, L, z_right, R)
           \<and> length z_left = length L \<and> length z_right = length R
           \<and> (\<forall>x \<in> set L \<union> set R. fle (Fin 0) x)
           \<and> (interior u v \<longrightarrow> (\<forall>x \<in> set L \<union> set R. isfinite x))"
proof -
  from emp_inv_loop [OF assms, of COMPUTE_EMPIRICAL_STEPS] obtain zs es where
    run: "for_loop (empirical_step u v (length u) (linspace COMPUTE_EMPIRICAL_STEPS) 0 0 (Suc 0) (Suc 0))
            [0..<COMPUTE_EMPIRICAL_STEPS] [[], []] = Inr [zs, es]"
    and inv: "emp_inv u v COMPUTE_EMPIRICAL_STEPS zs es"
    by auto
  have "compute_empirical u v = Inr (zs, es, zs, es)"
    by (simp add: compute_empirical_def empirical_loop_cells run list_append_cells)
  with inv show ?thesis
    by (auto simp: emp_inv_def)
qed


lemma linspace_nth_value:
  "k < n \<Longrightarrow> linspace n ! k = Fin (real k / real (n - 1))"
  by (simp add: linspace_def)

lemmas empirical_eval =
  compute_empirical_def empirical_loop_def new_list_def COMPUTE_EMPIRICAL_STEPS_def
  empirical_step_def tail_count_def np_broadcast2_def count_over_def list_append_def deref_def
  py_index_def fsquare_def fsub_def fgt_def fge_def linspace_nth_value upt_conv_Cons

lemma quartiles_14:
  "empirical_loop 14 example_quartiles example_quartiles
     = Inr (quartiles_z14, quartiles_e14, quartiles_z14, quartiles_e14)"
  by (simp add: empirical_eval example_quartiles_def quartiles_z14_def quartiles_e14_def)

lemma quartiles_15:
  "empirical_loop 15 example_quartiles example_quartiles
     = Inr (quartiles_z14 @ [Fin (2 / 7), Fin (2 / 7)],
            quartiles_e14 @ [Fin (49 / 8), Fin (2401 / 2592)],
            quartiles_z14 @ [Fin (2 / 7), Fin (2 / 7)],
            quartiles_e14 @ [Fin (49 / 8), Fin (2401 / 2592)])"
  by (simp add: empirical_eval example_quartiles_def quartiles_z14_def quartiles_e14_def)

text \<open>
  C4. On the observations \<open>(1/4, 1/4)\<close> and \<open>(3/4, 3/4)\<close> the pass for the grid point
  \<open>14/49 = 2/7\<close>, whose right count is \<open>1/2\<close>, appends \<open>2/7\<close> to \<open>z_right\<close> and appends
  \<open>2401/2592\<close> to \<open>R\<close>, which is \<open>(1/2) / (1 - 13/49)\<^sup>2\<close>: the divisor is taken at the
  entry with index 14 of the list that \<open>z_left\<close> and \<open>z_right\<close> share, the grid point
  \<open>13/49\<close> of the pass before. With the grid point appended in this pass the value would
  be \<open>(1/2) / (1 - 2/7)\<^sup>2 = 49/50\<close>.
\<close>

theorem right_tail_divides_by_earlier_grid_point:
  "empirical_loop 14 example_quartiles example_quartiles
     = Inr (quartiles_z14, quartiles_e14, quartiles_z14, quartiles_e14)
   \<and> empirical_loop 15 example_quartiles example_quartiles
     = Inr (quartiles_z14 @ [Fin (2 / 7), Fin (2 / 7)],
            quartiles_e14 @ [Fin (49 / 8), Fin (2401 / 2592)],
            quartiles_z14 @ [Fin (2 / 7), Fin (2 / 7)],
            quartiles_e14 @ [Fin (49 / 8), Fin (2401 / 2592)])
   \<and> linspace COMPUTE_EMPIRICAL_STEPS ! 14 = Fin (2 / 7)
   \<and> tail_count fge example_quartiles example_quartiles (Fin (2 / 7)) = Inr 1
   \<and> count_over 1 (length example_quartiles) = Inr (Fin (1 / 2))
   \<and> fdiv (Fin (1 / 2)) (fsquare (fsub (Fin 1) (Fin (2 / 7)))) = Fin (49 / 50)
   \<and> fdiv (Fin (1 / 2)) (fsquare (fsub (Fin 1) (Fin (13 / 49)))) = Fin (2401 / 2592)"
  using quartiles_14 quartiles_15
  by (simp add: linspace_nth_value COMPUTE_EMPIRICAL_STEPS_def tail_count_def np_broadcast2_def
      count_over_def example_quartiles_def fge_def fsquare_def fsub_def)

theorem right_tail_divides_by_earlier_grid_point_witness:
  "last (snd (snd (snd (projr (empirical_loop 15 example_quartiles example_quartiles)))))
     = Fin (2401 / 2592)
   \<and> last (fst (snd (snd (projr (empirical_loop 15 example_quartiles example_quartiles)))))
     = Fin (2 / 7)
   \<and> Fin (2401 / 2592) \<noteq> Fin (49 / 50)"
  using right_tail_divides_by_earlier_grid_point by simp

lemma zeros_run:
  "case compute_empirical [Fin 0, Fin 0] [Fin 0, Fin 0] of
     Inl err \<Rightarrow> False
   | Inr (z_left, L, z_right, R) \<Rightarrow> hd L = PInf"
  by (simp add: empirical_eval)

text \<open>
  C7, as stated, fails twice. On two empty sequences (of equal length) the function does
  not return: the first count is divided by \<^verbatim>\<open>N = 0\<close>. On two observations at the
  origin the left count at the grid point 0 is positive and the entry appended to \<open>L\<close> is
  the count over \<open>0\<^sup>2\<close>, which is infinite.
\<close>

theorem compute_empirical_boundary_counterexample:
  "compute_empirical [] [] = Inl ZeroDivisionError
   \<and> \<not> isl (compute_empirical [Fin 0, Fin 0] [Fin 0, Fin 0])
   \<and> hd (fst (snd (projr (compute_empirical [Fin 0, Fin 0] [Fin 0, Fin 0])))) = PInf
   \<and> \<not> isfinite PInf"
proof -
  have "compute_empirical [] [] = Inl ZeroDivisionError"
    by (simp add: empirical_eval)
  with zeros_run show ?thesis
    by (auto split: sum.splits)
qed

lemma quartiles_interior: "interior example_quartiles example_quartiles"
  by (simp add: interior_def example_quartiles_def fge_def)

theorem compute_empirical_lengths_and_signs_witness:
  "length example_quartiles = length example_quartiles \<and> example_quartiles \<noteq> []
   \<and> interior example_quartiles example_quartiles
   \<and> (\<exists>z_left L z_right R.
         compute_empirical example_quartiles example_quartiles = Inr (z_left, L, z_right, R)
         \<and> length z_left = length L \<and> length z_right = length R
         \<and> list_all (\<lambda>x. fle (Fin 0) x \<and> isfinite x) (L @ R))"
proof -
  have ne: "example_quartiles \<noteq> []"
    by (simp add: example_quartiles_def)
  from compute_empirical_lengths_and_signs [OF refl ne] quartiles_interior ne
  show ?thesis
    by (fastforce simp: list_all_iff)
qed

section \<open>Selection: the general branch\<close>

lemma empirical_step_keeps_shape:
  assumes "empirical_step u v N base 0 0 (Suc 0) (Suc 0) k [zs, es] = Inr h"
    and "length zs = length es"
  shows "\<exists>zs' es'. h = [zs', es'] \<and> length zs' = length es'"
  using assms
  by (auto simp: empirical_step_def list_append_cells Let_def split: sum.splits if_splits)

lemma for_loop_keeps_shape:
  assumes "for_loop (empirical_step u v N base 0 0 (Suc 0) (Suc 0)) ks [zs, es] = Inr h"
    and "length zs = length es"
  shows "\<exists>zs' es'. h = [zs', es'] \<and> length zs' = length es'"
  using assms
proof (induction ks arbitrary: zs es)
  case Nil
  then show ?case by auto
next
  case (Cons k ks)
  from Cons.prems(1) obtain h1 where
    h1: "empirical_step u v N base 0 0 (Suc 0) (Suc 0) k [zs, es] = Inr h1"
    and rest: "for_loop (empirical_step u v N base 0 0 (Suc 0) (Suc 0)) ks h1 = Inr h"
    by (auto split: sum.splits)
  from empirical_step_keeps_shape [OF h1 Cons.prems(2)] obtain zs1 es1 where
    "h1 = [zs1, es1]" "length zs1 = length es1"
    by blast
  with rest Cons.IH show ?case by blast
qed

lemma compute_empirical_shape:
  assumes "compute_empirical u v = Inr (a, b, c, d)"
  shows "c = a \<and> d = b \<and> length a = length b"
proof -
  from assms obtain h where
    run: "for_loop (empirical_step u v (length u) (linspace COMPUTE_EMPIRICAL_STEPS) 0 0 (Suc 0) (Suc 0))
            [0..<COMPUTE_EMPIRICAL_STEPS] [[], []] = Inr h"
    and res: "(a, b, c, d) = (deref 0 h, deref (Suc 0) h, deref 0 h, deref (Suc 0) h)"
    by (auto simp: compute_empirical_def empirical_loop_cells split: sum.splits)
  from for_loop_keeps_shape [OF run] obtain zs es where "h = [zs, es]" "length zs = length es"
    by auto
  with res show ?thesis
    by (simp add: list_append_cells)
qed


lemma np_sum_nan: "np_sum (NaN # xs) = NaN"
proof -
  have "foldl fadd NaN ys = NaN" for ys
    by (induction ys) simp_all
  then show ?thesis by (simp add: np_sum_def)
qed

lemma argmax_nan_first: "argmax (NaN # xs) = Inr 0"
  by (cases xs) (simp_all add: argmax_def)

lemma map_res_total:
  "(\<And>x. x \<in> set xs \<Longrightarrow> f x = Inr (g x)) \<Longrightarrow> map_res f xs = Inr (map g xs)"
  by (induction xs) simp_all

lemma for_loop_appends:
  assumes "\<And>x h. x \<in> set xs \<Longrightarrow> body x h = Inr (list_append 0 (g x) h)"
  shows "for_loop body xs [acc] = Inr [acc @ map g xs]"
  using assms
  by (induction xs arbitrary: acc) (simp_all add: list_append_def)

lemma left_step_total:
  assumes "cumulative_density (cls c) (theta c) z z = Inr ys" and "length ys = length z"
  shows "left_step z 0 c h = Inr (list_append 0 (left_curve z c) h)"
  using assms by (simp add: left_step_def left_curve_def np_broadcast2_def)

lemma right_step_total:
  assumes "cumulative_density (cls c) (theta c) z z = Inr ys" and "length ys = length z"
  shows "right_step z 0 c h = Inr (list_append 0 (right_curve z c) h)"
  using assms by (simp add: right_step_def right_curve_def compute_tail_def np_broadcast2_def)

lemma get_dependences_total:
  assumes "\<forall>c \<in> set cs. \<exists>ys. cumulative_density (cls c) (theta c) z z = Inr ys
                               \<and> length ys = length z"
  shows "get_dependences cs z z
           = Inr (map (left_curve z) cs @ map (right_curve z) cs,
                  map (left_curve z) cs @ map (right_curve z) cs)"
proof -
  have l: "for_loop (left_step z 0) cs [[]] = Inr [[] @ map (left_curve z) cs]"
    using assms by (intro for_loop_appends) (auto intro: left_step_total)
  have r: "for_loop (right_step z 0) cs [map (left_curve z) cs]
             = Inr [map (left_curve z) cs @ map (right_curve z) cs]"
    using assms by (intro for_loop_appends) (auto intro: right_step_total)
  show ?thesis
    using l r by (simp add: get_dependences_def new_list_def deref_def)
qed

lemma curve_lengths:
  assumes "cumulative_density (cls c) (theta c) z z = Inr ys" and "length ys = length z"
  shows "length (left_curve z c) = length z" and "length (right_curve z c) = length z"
  using assms by (simp_all add: left_curve_def right_curve_def)

lemma left_curve_nan:
  assumes "cumulative_density (cls c) (theta c) (Fin 0 # zs) (Fin 0 # zs) = Inr (Fin 0 # ys)"
  shows "\<exists>d. left_curve (Fin 0 # zs) c = NaN # d"
  using assms by (simp add: left_curve_def fsquare_def)


lemma fsub_nan_right: "fsub x NaN = NaN"
  by (cases x) (simp_all add: fsub_def)

lemma squared_deviations_total:
  assumes "\<forall>d \<in> set ds. length d = length empirical"
  shows "squared_deviations empirical ds = Inr (map (curve_cost empirical) ds)"
  unfolding squared_deviations_def
  using assms by (intro map_res_total) (simp add: np_broadcast2_def curve_cost_def)

lemma curve_cost_nan: "curve_cost (e # es) (NaN # d) = NaN"
  by (simp add: curve_cost_def fsub_nan_right fsquare_def np_sum_nan)

lemma select_by_cost_returns_first_candidate:
  assumes ce: "compute_empirical u v = Inr (z_left, L, z_right, R)"
    and z0: "z_left \<noteq> []" "hd z_left = Fin 0"
    and cd: "\<forall>c \<in> set (c0 # cs). \<exists>ys. cumulative_density (cls c) (theta c) z_left z_left = Inr ys
                                       \<and> length ys = length z_left"
    and c0: "\<exists>ys. cumulative_density (cls c0) (theta c0) z_left z_left = Inr ys \<and> hd ys = Fin 0"
  shows "select_by_cost (c0 # cs) (th0 # ths) u v = Inr (CLAYTON, th0)"
proof -
  from compute_empirical_shape [OF ce] have same: "z_right = z_left" "R = L"
    and len: "length z_left = length L"
    by simp_all
  from z0 obtain zs where z: "z_left = Fin 0 # zs"
    by (cases z_left) auto
  with len obtain e es where l: "L = e # es"
    by (cases L) auto
  define ds where "ds = map (left_curve z_left) (c0 # cs) @ map (right_curve z_left) (c0 # cs)"
  have deps: "get_dependences (c0 # cs) z_left z_left = Inr (ds, ds)"
    unfolding ds_def using cd by (rule get_dependences_total)
  have lens: "\<forall>d \<in> set ds. length d = length L"
    using cd curve_lengths len by (fastforce simp: ds_def)
  from c0 cd obtain ys where "cumulative_density (cls c0) (theta c0) z_left z_left = Inr (Fin 0 # ys)"
    by (cases "projr (cumulative_density (cls c0) (theta c0) z_left z_left)") (auto simp: z)
  from left_curve_nan [OF this [unfolded z]] obtain d0 where "left_curve z_left c0 = NaN # d0"
    by (auto simp: z)
  then obtain ds' where hd_ds: "ds = (NaN # d0) # ds'"
    by (simp add: ds_def)
  have costs: "squared_deviations L ds = Inr (NaN # map (curve_cost L) ds')"
    using squared_deviations_total [OF lens]
    by (simp add: hd_ds l curve_cost_nan)
  show ?thesis
    by (simp add: select_by_cost_def ce deps same costs np_broadcast2_def argmax_nan_first
        py_index_def CopulaTypes_of_value_def)
qed

lemma try_candidate_keeps_head:
  assumes "try_candidate e t u v (c # cs, th # ths) = Inr r"
  shows "\<exists>cs' ths'. r = (c # cs', th # ths')"
  using assms by (auto simp: try_candidate_def split: sum.splits if_splits)

lemma copula_candidates_head:
  assumes "copula_candidates e clayton u v = Inr (cands, thetas)"
  shows "\<exists>cs ths. cands = clayton # cs \<and> thetas = theta clayton # ths"
proof -
  from assms obtain r1 where
    r1: "try_candidate e FRANK u v ([clayton], [theta clayton]) = Inr r1"
    and r2: "try_candidate e GUMBEL u v r1 = Inr (cands, thetas)"
    by (auto simp: copula_candidates_def split: sum.splits)
  from try_candidate_keeps_head [OF r1] obtain cs1 ths1 where
    "r1 = (clayton # cs1, theta clayton # ths1)"
    by blast
  with r2 try_candidate_keeps_head show ?thesis
    by blast
qed

text \<open>
  C1. On the general branch the scores the claim describes do not decide the result.
  \<^verbatim>\<open>compute_empirical\<close> returns one list as \<open>z_left\<close> and \<open>z_right\<close> and one as \<open>L\<close> and
  \<open>R\<close>, and \<^verbatim>\<open>get_dependences\<close> returns one list, the left curves followed by the right
  curves, as both of its results; so there are twice as many costs as candidates, each
  the deviation of one curve from the merged empirical list. When the grid list starts
  with the grid point 0, every cumulative density returns as many values as it is given,
  and Clayton's vanishes at the origin, the first curve starts with \<open>0 / 0\<close>, the first
  cost is nan, \<^verbatim>\<open>np.argmax\<close> returns 0, and \<^verbatim>\<open>select_copula\<close> returns the Clayton tag
  with Clayton's theta, whatever the other values are.
\<close>

theorem select_copula_general_branch_returns_clayton:
  assumes fitted: "fit_new e CLAYTON u v = Inr clayton"
    and positive: "tau clayton = Some t" "\<not> fle t (Fin 0)"
    and cands: "copula_candidates e clayton u v = Inr (candidates, thetas)"
    and ce: "compute_empirical u v = Inr (z_left, L, z_right, R)"
    and z0: "z_left \<noteq> []" "hd z_left = Fin 0"
    and cd: "\<forall>c \<in> set candidates.
               \<exists>ys. cumulative_density (cls c) (theta c) z_left z_left = Inr ys
                    \<and> length ys = length z_left"
    and c0: "\<exists>ys. cumulative_density (cls clayton) (theta clayton) z_left z_left = Inr ys
                  \<and> hd ys = Fin 0"
  shows "select_copula e u v = Inr (CLAYTON, theta clayton)"
proof -
  from copula_candidates_head [OF cands] obtain cs ths where
    shape: "candidates = clayton # cs" "thetas = theta clayton # ths"
    by blast
  have "select_by_cost (clayton # cs) (theta clayton # ths) u v = Inr (CLAYTON, theta clayton)"
    using ce z0 cd [unfolded shape] c0 by (rule select_by_cost_returns_first_candidate)
  then show ?thesis
    using fitted positive cands
    by (simp add: select_copula_def select_general_def shape)
qed

lemma kendalltau_example:
  "scipy_kendalltau example_U example_V = Inr (Fin (1 / 3))"
  by (simp add: scipy_kendalltau_def example_U_def example_V_def concordant_def discordant_def feq_def)

lemmas fit_eval =
  fit_new_def Bivariate_def Bivariate_new_def Bivariate_init_def example_env_def fit_def
  check_theta_def example_clayton_def example_frank_def example_gumbel_def feq_def fsub_def
  py_in_def

lemma fit_new_example_clayton:
  "fit_new example_env CLAYTON example_U example_V = Inr (example_fitted example_clayton 1)"
  by (simp add: fit_eval kendalltau_example example_fitted_def)

lemma fit_new_example_frank:
  "fit_new example_env FRANK example_U example_V = Inr (example_fitted example_frank 3)"
  by (simp add: fit_eval kendalltau_example example_fitted_def)

lemma fit_new_example_gumbel:
  "fit_new example_env GUMBEL example_U example_V = Inr (example_fitted example_gumbel (3 / 2))"
  by (simp add: fit_eval kendalltau_example example_fitted_def)

lemma copula_candidates_example:
  "copula_candidates example_env (example_fitted example_clayton 1) example_U example_V
     = Inr ([example_fitted example_clayton 1, example_fitted example_frank 3,
             example_fitted example_gumbel (3 / 2)],
            [Some (Fin 1), Some (Fin 3), Some (Fin (3 / 2))])"
  by (simp add: copula_candidates_def try_candidate_def fit_new_example_frank
      fit_new_example_gumbel example_fitted_def)

lemma example_empirical_head:
  "\<exists>z_left L z_right R.
     compute_empirical example_U example_V = Inr (z_left, L, z_right, R)
     \<and> z_left \<noteq> [] \<and> hd z_left = Fin 0"
proof -
  have "case compute_empirical example_U example_V of
          Inl err \<Rightarrow> False
        | Inr (z_left, L, z_right, R) \<Rightarrow> z_left \<noteq> [] \<and> hd z_left = Fin 0"
    by (simp add: empirical_eval example_U_def example_V_def)
  then show ?thesis
    by (auto split: sum.splits)
qed

lemma example_cumulative_density:
  assumes "c \<in> {example_clayton, example_frank, example_gumbel}"
  shows "\<exists>ys. cumulative_density (cls (example_fitted c th)) (theta (example_fitted c th)) z z = Inr ys
              \<and> length ys = length z"
  using assms
  by (auto simp: example_fitted_def example_clayton_def example_frank_def example_gumbel_def
      np_broadcast2_def)

lemma example_clayton_origin:
  assumes "z \<noteq> []" and "hd z = Fin 0"
  shows "\<exists>ys. cumulative_density (cls (example_fitted example_clayton th))
                 (theta (example_fitted example_clayton th)) z z = Inr ys
              \<and> hd ys = Fin 0"
  using assms
  by (cases z) (auto simp: example_fitted_def example_clayton_def np_broadcast2_def)

lemma spec_select_example:
  "spec_select
         [example_fitted example_clayton 1, example_fitted example_frank 3,
          example_fitted example_gumbel (3 / 2)] example_U example_V
    = Inr (FRANK, Some (Fin 3))"
  by (simp add: spec_select_def spec_score_def spec_compute_empirical_def spec_count_def
      linspace_def COMPUTE_EMPIRICAL_STEPS_def upt_conv_Cons example_U_def example_V_def
      compute_tail_def np_broadcast2_def example_fitted_def fge_def fsquare_def fsub_def
      example_clayton_def example_frank_def example_gumbel_def fmax_def fmin_def
      np_sum_def argmax_def inf_times_def)

text \<open>
  On the three example observations all three fits succeed and the theorem applies, while
  by the scores of the specification (deviation of the left curve from \<open>L\<close> plus
  deviation of the right curve from \<open>R\<close>, on separate lists) the maximum is the second
  candidate.
\<close>

theorem select_copula_general_branch_returns_clayton_witness:
  "select_copula example_env example_U example_V = Inr (CLAYTON, Some (Fin 1))
   \<and> spec_select
        [example_fitted example_clayton 1, example_fitted example_frank 3,
         example_fitted example_gumbel (3 / 2)] example_U example_V
      = Inr (FRANK, Some (Fin 3))"
proof -
  from example_empirical_head obtain z_left L z_right R where
    ce: "compute_empirical example_U example_V = Inr (z_left, L, z_right, R)"
    and z0: "z_left \<noteq> []" "hd z_left = Fin 0"
    by blast
  have tau_pos: "tau (example_fitted example_clayton 1) = Some (Fin (1 / 3))"
    "\<not> fle (Fin (1 / 3)) (Fin 0)"
    by (simp_all add: example_fitted_def)
  have cd: "\<forall>c \<in> set [example_fitted example_clayton 1, example_fitted example_frank 3,
                        example_fitted example_gumbel (3 / 2)].
              \<exists>ys. cumulative_density (cls c) (theta c) z_left z_left = Inr ys
                   \<and> length ys = length z_left"
    using example_cumulative_density by simp
  have "select_copula example_env example_U example_V
          = Inr (CLAYTON, theta (example_fitted example_clayton 1))"
    using select_copula_general_branch_returns_clayton
      [OF fit_new_example_clayton tau_pos copula_candidates_example ce z0 cd
          example_clayton_origin [OF z0]] .
  with spec_select_example show ?thesis
    by (simp add: example_fitted_def)
qed

end
